theory Spec2Isabelle
  imports Complex_Main "HOL-Library.Char_ord" "HOL-Library.List_Lexorder"
begin

section \<open>Platform primitives\<close>

text \<open>
  JavaScript numbers are IEEE 754 doubles. A finite double is modelled by the real
  number it denotes, and an arithmetic operation gives the exact result rounded to the
  nearest double, a tie going to the even significand (\<open>fl\<close>). \<open>NaN\<close> is modelled as
  \<open>None\<close> where the program can produce it (an unparsable date). An overflow to
  \<open>Infinity\<close> and the sign of zero are not modelled: the quantities of the program
  stay far below \<open>2 ^ 1024\<close>.
\<close>

type_synonym number = real

text \<open>The number of binary digits of a natural number.\<close>

fun bitLength :: "nat \<Rightarrow> nat" where
  "bitLength n = (if n = 0 then 0 else Suc (bitLength (n div 2)))"

definition pow2 :: "int \<Rightarrow> real" where
  "pow2 k = (if 0 \<le> k then 2 ^ nat k else 1 / 2 ^ nat (- k))"

text \<open>For a positive \<open>a\<close>, the exponent \<open>e\<close> with \<open>2 ^ e \<le> a < 2 ^ (e + 1)\<close>.\<close>

definition binaryExponent :: "real \<Rightarrow> int" where
  "binaryExponent a =
     (if 1 \<le> a then int (bitLength (nat \<lfloor>a\<rfloor>)) - 1
      else - int (bitLength (nat \<lceil>1 / a\<rceil> - 1)))"

definition roundTiesToEven :: "real \<Rightarrow> int" where
  "roundTiesToEven y =
     (let f = \<lfloor>y\<rfloor>; r = y - real_of_int f in
      if r < 1 / 2 then f else if 1 / 2 < r then f + 1 else if even f then f else f + 1)"

text \<open>
  The nearest double: 53 significant binary digits, the unit in the last place not
  below \<open>2 ^ - 1074\<close> (the subnormal range).
\<close>

definition fl :: "real \<Rightarrow> number" where
  "fl x =
     (if x = 0 then 0
      else
        (let a = \<bar>x\<bar>;
             e = max (binaryExponent a) (- 1022);
             ulp = pow2 (e - 52)
         in sgn x * (real_of_int (roundTiesToEven (a / ulp)) * ulp)))"

definition fadd :: "number \<Rightarrow> number \<Rightarrow> number" where
  "fadd x y = fl (x + y)"


text \<open>Division by a number other than 0, as every division of the program is.\<close>

definition fdiv :: "number \<Rightarrow> number \<Rightarrow> number" where
  "fdiv x y = fl (x / y)"

text \<open>
  \<open>Math.round\<close>: the nearest integer, a tie going to the larger one. It is exact on
  every double, and so is \<open>Math.ceil\<close>.
\<close>

definition Math_round :: "number \<Rightarrow> int" where
  "Math_round x = \<lfloor>x + 1 / 2\<rfloor>"

definition Math_ceil :: "number \<Rightarrow> int" where
  "Math_ceil x = \<lceil>x\<rceil>"

definition Math_max :: "int \<Rightarrow> int \<Rightarrow> int" where
  "Math_max a b = (if a < b then b else a)"

text \<open>
  \<open>Array.prototype.join\<close> on strings: the elements in order, the separator between
  each two of them, nothing around them.
\<close>

fun join :: "string \<Rightarrow> string list \<Rightarrow> string" where
  "join sep [] = []"
| "join sep [x] = x"
| "join sep (x # y # ys) = x @ sep @ join sep (y # ys)"

subsection \<open>Parsing a date-only string\<close>

text \<open>
  \<open>new Date(s).getTime()\<close> for the strings the date inputs produce: the ECMAScript
  date-only form \<open>YYYY-MM-DD\<close> is read as midnight UTC of that day, in milliseconds
  since 1970-01-01. Any other string (the empty string of a cleared input among them)
  gives an invalid date, whose time value is \<open>NaN\<close>; so does a month outside 1 to 12
  or a day outside the month (an engine may read some of these strings in its own
  way; the date inputs do not produce them). The day number follows the day-number formulas of the
  ECMAScript specification (\<open>DayFromYear\<close>, \<open>InLeapYear\<close>, \<open>MakeDay\<close>).
\<close>

definition digitValue :: "char \<Rightarrow> nat option" where
  "digitValue c =
     (let n = (of_char c :: nat) in if 48 \<le> n \<and> n \<le> 57 then Some (n - 48) else None)"

fun digitsValue :: "nat \<Rightarrow> string \<Rightarrow> nat option" where
  "digitsValue acc [] = Some acc"
| "digitsValue acc (c # cs) =
     (case digitValue c of None \<Rightarrow> None | Some d \<Rightarrow> digitsValue (10 * acc + d) cs)"

definition InLeapYear :: "int \<Rightarrow> bool" where
  "InLeapYear y = ((y mod 4 = 0 \<and> y mod 100 \<noteq> 0) \<or> y mod 400 = 0)"

definition DayFromYear :: "int \<Rightarrow> int" where
  "DayFromYear y =
     365 * (y - 1970) + (y - 1969) div 4 - (y - 1901) div 100 + (y - 1601) div 400"

definition DaysInMonth :: "int \<Rightarrow> nat \<Rightarrow> int" where
  "DaysInMonth y m =
     (if m = 2 then (if InLeapYear y then 29 else 28)
      else if m = 4 \<or> m = 6 \<or> m = 9 \<or> m = 11 then 30 else 31)"

definition DayWithinYear :: "int \<Rightarrow> nat \<Rightarrow> int" where
  "DayWithinYear y m =
     [0, 31, 59, 90, 120, 151, 181, 212, 243, 273, 304, 334] ! (m - 1)
       + (if InLeapYear y \<and> 2 < m then 1 else 0)"

definition MakeDay :: "int \<Rightarrow> nat \<Rightarrow> nat \<Rightarrow> int" where
  "MakeDay y m d = DayFromYear y + DayWithinYear y m + int d - 1"

definition msPerDay :: int where
  "msPerDay = 1000 * 60 * 60 * 24"

text \<open>The day number of a date-only string, \<open>None\<close> when it is not one.\<close>

definition parseDay :: "string \<Rightarrow> int option" where
  "parseDay s =
     (if length s = 10 \<and> s ! 4 = CHR ''-'' \<and> s ! 7 = CHR ''-'' then
        (case (digitsValue 0 (take 4 s), digitsValue 0 (take 2 (drop 5 s)),
               digitsValue 0 (drop 8 s)) of
           (Some y, Some m, Some d) \<Rightarrow>
             if 1 \<le> m \<and> m \<le> 12 \<and> 1 \<le> d \<and> int d \<le> DaysInMonth (int y) m
             then Some (MakeDay (int y) m d) else None
         | _ \<Rightarrow> None)
      else None)"

definition Date_getTime :: "string \<Rightarrow> int option" where
  "Date_getTime s = map_option (\<lambda>d. d * msPerDay) (parseDay s)"


subsection \<open>The clock\<close>

text \<open>
  A \<open>Date\<close> object taken from the clock (\<open>new Date()\<close>) is modelled by the strings
  its two formatting methods return. Every handler below takes the dates it reads from
  the clock as arguments, in the order the source reads them.
\<close>

record Date =
  toISOString :: string
  toTimeString :: string

text \<open>\<open>s.split(c)[0]\<close>: the part of \<open>s\<close> before the first \<open>c\<close>.\<close>

definition split_first :: "char \<Rightarrow> string \<Rightarrow> string" where
  "split_first c s = takeWhile (\<lambda>x. x \<noteq> c) s"

definition formatDate :: "Date \<Rightarrow> string" where
  "formatDate date = split_first CHR ''T'' (toISOString date)"

definition formatTime :: "Date \<Rightarrow> string" where
  "formatTime date = take 5 (split_first CHR '' '' (toTimeString date))"

definition getTimestamp :: "Date \<Rightarrow> string" where
  "getTimestamp now = toISOString now"

section \<open>Data model\<close>

datatype shift = morning | afternoon | night

datatype worker_status = active | inactive | leave

datatype inventory_category = inv_equipment | tools | spare_parts | inv_consumables | safety

datatype condition = good | fair | poor | broken

datatype purchase_category = equipment | consumables | maintenance | transport | other

datatype theme = dark | light

datatype language = fr | en

text \<open>
  The primary key \<open>id\<close> of a stored object is kept beside the object, as the key of
  its row; the records below hold the other fields. Field names carry the entity's
  name, since several entities share \<open>siteId\<close>, \<open>date\<close>, \<open>notes\<close> and the stamps.
\<close>

record Site =
  site_name :: string
  site_location :: string
  site_isActive :: bool
  site_createdAt :: string

record Production =
  prod_siteId :: nat
  prod_date :: string
  prod_quantityGrams :: number
  prod_team :: string
  prod_shift :: shift
  prod_notes :: string
  prod_createdAt :: string
  prod_updatedAt :: string

record Worker =
  wrk_siteId :: nat
  wrk_firstName :: string
  wrk_lastName :: string
  wrk_role :: string
  wrk_phone :: string
  wrk_team :: string
  wrk_status :: worker_status
  wrk_hireDate :: string
  wrk_createdAt :: string
  wrk_updatedAt :: string

record InventoryItem =
  inv_siteId :: nat
  inv_name :: string
  inv_category :: inventory_category
  inv_quantity :: number
  inv_unit :: string
  inv_minQuantity :: number
  inv_condition :: condition
  inv_location :: string
  inv_notes :: string
  inv_createdAt :: string
  inv_updatedAt :: string

record Purchase =
  pur_siteId :: nat
  pur_item :: string
  pur_amount :: number
  pur_currency :: string
  pur_supplier :: string
  pur_category :: purchase_category
  pur_receiptPhoto :: string
  pur_purchaseDate :: string
  pur_purchaseTime :: string
  pur_notes :: string
  pur_createdAt :: string
  pur_updatedAt :: string

record DailyReport =
  rep_siteId :: nat
  rep_date :: string
  rep_summary :: string
  rep_incidents :: string
  rep_observations :: string
  rep_photos :: "string list"
  rep_productionTotal :: number
  rep_workersPresent :: number
  rep_createdAt :: string
  rep_updatedAt :: string

record Settings =
  showVsYesterday :: bool
  showVsLastWeek :: bool
  showWorkingDays :: bool
  showProductionComparison :: bool
  showPurchaseComparison :: bool
  set_theme :: theme
  set_language :: language
  set_updatedAt :: string

section \<open>Persistent store\<close>

text \<open>
  A table of the embedded database: its rows in the order of their primary keys, and
  the key generator of the auto-incremented key \<open>++id\<close> (the next key it hands out;
  it starts at 1 and never goes back, also after a delete). Storage failures
  (quota, corruption) are not modelled: every operation succeeds.
\<close>

record 'a table =
  rows :: "(nat \<times> 'a) list"
  nextId :: nat

definition emptyTable :: "'a table" where
  "emptyTable = \<lparr> rows = [], nextId = 1 \<rparr>"

text \<open>\<open>table.add(obj)\<close>: stores the object under a fresh key and returns the key.\<close>

definition table_add :: "'a \<Rightarrow> 'a table \<Rightarrow> nat \<times> 'a table" where
  "table_add obj t =
     (nextId t, t\<lparr> rows := rows t @ [(nextId t, obj)], nextId := Suc (nextId t) \<rparr>)"

definition table_get :: "nat \<Rightarrow> 'a table \<Rightarrow> 'a option" where
  "table_get k t = map_of (rows t) k"

text \<open>
  \<open>table.update(key, changes)\<close>: applies the changes to the object stored under the
  key; no object under that key, no change.
\<close>

definition table_update :: "nat \<Rightarrow> ('a \<Rightarrow> 'a) \<Rightarrow> 'a table \<Rightarrow> 'a table" where
  "table_update k changes t =
     t\<lparr> rows := map (\<lambda>(i, obj). if i = k then (i, changes obj) else (i, obj)) (rows t) \<rparr>"

definition table_delete :: "nat \<Rightarrow> 'a table \<Rightarrow> 'a table" where
  "table_delete k t = t\<lparr> rows := filter (\<lambda>(i, obj). i \<noteq> k) (rows t) \<rparr>"

text \<open>\<open>table.toCollection().modify(changes)\<close>: applies the changes to every object.\<close>

definition table_modify :: "('a \<Rightarrow> 'a) \<Rightarrow> 'a table \<Rightarrow> 'a table" where
  "table_modify changes t = t\<lparr> rows := map (\<lambda>(i, obj). (i, changes obj)) (rows t) \<rparr>"

text \<open>\<open>table.toCollection().first()\<close>: the object with the least key, if any.\<close>

definition table_first :: "'a table \<Rightarrow> (nat \<times> 'a) option" where
  "table_first t = (case rows t of [] \<Rightarrow> None | r # _ \<Rightarrow> Some r)"

definition table_toArray :: "'a table \<Rightarrow> 'a list" where
  "table_toArray t = map snd (rows t)"

text \<open>\<open>table.where('siteId').equals(id).delete()\<close>, given the field to read.\<close>

definition where_siteId_equals_delete :: "('a \<Rightarrow> nat) \<Rightarrow> nat \<Rightarrow> 'a table \<Rightarrow> 'a table" where
  "where_siteId_equals_delete siteIdOf k t =
     t\<lparr> rows := filter (\<lambda>(i, obj). siteIdOf obj \<noteq> k) (rows t) \<rparr>"

text \<open>
  What the key generator maintains: keys are distinct, positive and below the next key.
\<close>

definition keysOf :: "'a table \<Rightarrow> nat list" where
  "keysOf t = map fst (rows t)"

definition wf_table :: "'a table \<Rightarrow> bool" where
  "wf_table t \<longleftrightarrow>
     distinct (keysOf t) \<and> 0 < nextId t \<and> list_all (\<lambda>k. 0 < k \<and> k < nextId t) (keysOf t)"

record DB =
  sites :: "Site table"
  productions :: "Production table"
  workers :: "Worker table"
  inventory :: "InventoryItem table"
  purchases :: "Purchase table"
  dailyReports :: "DailyReport table"
  settings :: "Settings table"

section \<open>Derived reporting (ReportsPage)\<close>

record DateRange =
  range_start :: string
  range_end :: string

record ReportData =
  totalProduction :: number
  productionByTeam :: "string \<rightharpoonup> number"
  productionByShift :: "shift \<rightharpoonup> number"
  activeWorkers :: nat
  totalWorkers :: nat
  inventoryValue :: nat
  lowStockItems :: nat
  dailyAverage :: "int option"

text \<open>
  The date filter of the report and of the export: string comparison on both ends.
  Strings are compared as the program compares them, unit by unit from the left, a
  proper prefix being smaller. The three arrays of the report are the whole tables, in
  key order, of every site.
\<close>

definition inDateRange :: "DateRange \<Rightarrow> Production \<Rightarrow> bool" where
  "inDateRange dateRange p \<longleftrightarrow>
     prod_date p \<ge> range_start dateRange \<and> prod_date p \<le> range_end dateRange"

text \<open>
  \<open>(m[k] || 0) + q\<close>: a missing entry counts as 0. The names a plain object
  inherits (a team called \<open>constructor\<close>) are not modelled.
\<close>

definition addTo :: "('k \<rightharpoonup> number) \<Rightarrow> 'k \<Rightarrow> number \<Rightarrow> ('k \<rightharpoonup> number)" where
  "addTo m k q = m(k \<mapsto> fadd (case m k of None \<Rightarrow> 0 | Some v \<Rightarrow> v) q)"

text \<open>
  The day count of the report: the difference of the two time values in days, rounded
  up, and at least 1. The time values are whole numbers of milliseconds, which the
  subtraction handles exactly. \<open>None\<close> is \<open>NaN\<close>, which an invalid date propagates through
  \<open>Math.ceil\<close>, \<open>Math.max\<close>, the division and \<open>Math.round\<close>.
\<close>

definition daysDiff :: "DateRange \<Rightarrow> int option" where
  "daysDiff dateRange =
     (case (Date_getTime (range_end dateRange), Date_getTime (range_start dateRange)) of
        (Some e, Some s) \<Rightarrow>
          Some (Math_max 1 (Math_ceil (fdiv (real_of_int (e - s)) (real_of_int msPerDay))))
      | _ \<Rightarrow> None)"

definition generateReport :: "DateRange \<Rightarrow> DB \<Rightarrow> ReportData" where
  "generateReport dateRange db =
     (let allProductions = table_toArray (productions db);
          allWorkers = table_toArray (workers db);
          allInventory = table_toArray (inventory db);
          filteredProductions = filter (inDateRange dateRange) allProductions;
          total = foldl (\<lambda>sum p. fadd sum (prod_quantityGrams p)) 0 filteredProductions;
          byTeam = foldl (\<lambda>m p. addTo m (prod_team p) (prod_quantityGrams p))
                     Map.empty filteredProductions;
          byShift = foldl (\<lambda>m p. addTo m (prod_shift p) (prod_quantityGrams p))
                      Map.empty filteredProductions;
          nActive = length (filter (\<lambda>w. wrk_status w = active) allWorkers);
          nLow = length (filter (\<lambda>item. inv_quantity item \<le> inv_minQuantity item) allInventory)
      in \<lparr> totalProduction = total,
           productionByTeam = byTeam,
           productionByShift = byShift,
           activeWorkers = nActive,
           totalWorkers = length allWorkers,
           inventoryValue = length allInventory,
           lowStockItems = nLow,
           dailyAverage =
             map_option (\<lambda>d. Math_round (fdiv total (real_of_int d))) (daysDiff dateRange) \<rparr>)"


subsection \<open>CSV export\<close>

definition shiftString :: "shift \<Rightarrow> string" where
  "shiftString s = (case s of morning \<Rightarrow> ''morning'' | afternoon \<Rightarrow> ''afternoon'' | night \<Rightarrow> ''night'')"

text \<open>
  The header cells, as the UTF-8 bytes of the source's literals
  \<open>Date\<close>, \<open>Quantit\<close>e-acute\<open> (g)\<close>, E-acute\<open>quipe\<close>, \<open>Quart\<close>, \<open>Notes\<close>:
  the date, the quantity in grams, the team, the shift and the notes.
\<close>

definition headers :: "string list" where
  "headers =
     [''Date'',
      ''Quantit'' @ [CHR 0xC3, CHR 0xA9] @ '' (g)'',
      [CHR 0xC3, CHR 0x89] @ ''quipe'',
      ''Quart'',
      ''Notes'']"

text \<open>
  One row of cells for a production. The quantity is a number, which \<open>join\<close> turns
  into text by the platform's number-to-string conversion: the parameter \<open>numStr\<close>.
\<close>

definition csvCells :: "(number \<Rightarrow> string) \<Rightarrow> Production \<Rightarrow> string list" where
  "csvCells numStr p =
     [prod_date p, numStr (prod_quantityGrams p), prod_team p, shiftString (prod_shift p),
      prod_notes p]"

definition exportCSV :: "(number \<Rightarrow> string) \<Rightarrow> DateRange \<Rightarrow> DB \<Rightarrow> string" where
  "exportCSV numStr dateRange db =
     (let inRange = filter (inDateRange dateRange) (table_toArray (productions db));
          csvRows = map (csvCells numStr) inRange
      in join [CHR 0x0A] (join '','' headers # map (\<lambda>row. join '','' row) csvRows))"

section \<open>Inventory (InventoryPage)\<close>

definition isLowStock :: "InventoryItem \<Rightarrow> bool" where
  "isLowStock item \<longleftrightarrow> inv_quantity item \<le> inv_minQuantity item"

text \<open>The count of the inventory page, over the items it has loaded for its site.\<close>

definition lowStockCount :: "InventoryItem list \<Rightarrow> nat" where
  "lowStockCount items = length (filter isLowStock items)"

section \<open>Identity and session state (AuthContext)\<close>

datatype UserRole = admin | supervisor | worker

record User =
  user_id :: nat
  user_firstName :: string
  user_lastName :: string
  user_email :: string
  user_phone :: string
  user_role :: UserRole
  user_avatar :: "string option"
  user_siteId :: nat
  user_team :: string
  user_createdAt :: string

record AuthState =
  user :: "User option"
  viewMode :: UserRole

definition roleHierarchy :: "UserRole \<Rightarrow> nat" where
  "roleHierarchy r = (case r of admin \<Rightarrow> 3 | supervisor \<Rightarrow> 2 | worker \<Rightarrow> 1)"

definition canAccess :: "AuthState \<Rightarrow> UserRole \<Rightarrow> bool" where
  "canAccess st requiredRole =
     (let currentLevel = roleHierarchy (viewMode st);
          requiredLevel = roleHierarchy requiredRole
      in currentLevel \<ge> requiredLevel)"

definition setViewMode :: "UserRole \<Rightarrow> AuthState \<Rightarrow> AuthState" where
  "setViewMode mode st = st\<lparr>viewMode := mode\<rparr>"


section \<open>Partial updates\<close>

text \<open>
  A \<open>Partial<T>\<close> object names some fields of \<open>T\<close> and gives each a value: a record
  of options, \<open>None\<close> for a field it does not name. Applying it keeps the fields it
  does not name.
\<close>

definition patch :: "'a option \<Rightarrow> 'a \<Rightarrow> 'a" where
  "patch change old = (case change of None \<Rightarrow> old | Some v \<Rightarrow> v)"

record SitePartial =
  ch_site_name :: "string option"
  ch_site_location :: "string option"
  ch_site_isActive :: "bool option"
  ch_site_createdAt :: "string option"

definition noSiteChanges :: SitePartial where
  "noSiteChanges = \<lparr> ch_site_name = None, ch_site_location = None, ch_site_isActive = None,
     ch_site_createdAt = None \<rparr>"

definition applySite :: "SitePartial \<Rightarrow> Site \<Rightarrow> Site" where
  "applySite c s =
     \<lparr> site_name = patch (ch_site_name c) (site_name s),
       site_location = patch (ch_site_location c) (site_location s),
       site_isActive = patch (ch_site_isActive c) (site_isActive s),
       site_createdAt = patch (ch_site_createdAt c) (site_createdAt s) \<rparr>"

record ProductionPartial =
  ch_prod_siteId :: "nat option"
  ch_prod_date :: "string option"
  ch_prod_quantityGrams :: "number option"
  ch_prod_team :: "string option"
  ch_prod_shift :: "shift option"
  ch_prod_notes :: "string option"
  ch_prod_createdAt :: "string option"
  ch_prod_updatedAt :: "string option"

definition applyProduction :: "ProductionPartial \<Rightarrow> Production \<Rightarrow> Production" where
  "applyProduction c p =
     \<lparr> prod_siteId = patch (ch_prod_siteId c) (prod_siteId p),
       prod_date = patch (ch_prod_date c) (prod_date p),
       prod_quantityGrams = patch (ch_prod_quantityGrams c) (prod_quantityGrams p),
       prod_team = patch (ch_prod_team c) (prod_team p),
       prod_shift = patch (ch_prod_shift c) (prod_shift p),
       prod_notes = patch (ch_prod_notes c) (prod_notes p),
       prod_createdAt = patch (ch_prod_createdAt c) (prod_createdAt p),
       prod_updatedAt = patch (ch_prod_updatedAt c) (prod_updatedAt p) \<rparr>"

record InventoryPartial =
  ch_inv_siteId :: "nat option"
  ch_inv_name :: "string option"
  ch_inv_category :: "inventory_category option"
  ch_inv_quantity :: "number option"
  ch_inv_unit :: "string option"
  ch_inv_minQuantity :: "number option"
  ch_inv_condition :: "condition option"
  ch_inv_location :: "string option"
  ch_inv_notes :: "string option"
  ch_inv_createdAt :: "string option"
  ch_inv_updatedAt :: "string option"

definition applyInventory :: "InventoryPartial \<Rightarrow> InventoryItem \<Rightarrow> InventoryItem" where
  "applyInventory c x =
     \<lparr> inv_siteId = patch (ch_inv_siteId c) (inv_siteId x),
       inv_name = patch (ch_inv_name c) (inv_name x),
       inv_category = patch (ch_inv_category c) (inv_category x),
       inv_quantity = patch (ch_inv_quantity c) (inv_quantity x),
       inv_unit = patch (ch_inv_unit c) (inv_unit x),
       inv_minQuantity = patch (ch_inv_minQuantity c) (inv_minQuantity x),
       inv_condition = patch (ch_inv_condition c) (inv_condition x),
       inv_location = patch (ch_inv_location c) (inv_location x),
       inv_notes = patch (ch_inv_notes c) (inv_notes x),
       inv_createdAt = patch (ch_inv_createdAt c) (inv_createdAt x),
       inv_updatedAt = patch (ch_inv_updatedAt c) (inv_updatedAt x) \<rparr>"

record PurchasePartial =
  ch_pur_siteId :: "nat option"
  ch_pur_item :: "string option"
  ch_pur_amount :: "number option"
  ch_pur_currency :: "string option"
  ch_pur_supplier :: "string option"
  ch_pur_category :: "purchase_category option"
  ch_pur_receiptPhoto :: "string option"
  ch_pur_purchaseDate :: "string option"
  ch_pur_purchaseTime :: "string option"
  ch_pur_notes :: "string option"
  ch_pur_createdAt :: "string option"
  ch_pur_updatedAt :: "string option"

definition applyPurchase :: "PurchasePartial \<Rightarrow> Purchase \<Rightarrow> Purchase" where
  "applyPurchase c x =
     \<lparr> pur_siteId = patch (ch_pur_siteId c) (pur_siteId x),
       pur_item = patch (ch_pur_item c) (pur_item x),
       pur_amount = patch (ch_pur_amount c) (pur_amount x),
       pur_currency = patch (ch_pur_currency c) (pur_currency x),
       pur_supplier = patch (ch_pur_supplier c) (pur_supplier x),
       pur_category = patch (ch_pur_category c) (pur_category x),
       pur_receiptPhoto = patch (ch_pur_receiptPhoto c) (pur_receiptPhoto x),
       pur_purchaseDate = patch (ch_pur_purchaseDate c) (pur_purchaseDate x),
       pur_purchaseTime = patch (ch_pur_purchaseTime c) (pur_purchaseTime x),
       pur_notes = patch (ch_pur_notes c) (pur_notes x),
       pur_createdAt = patch (ch_pur_createdAt c) (pur_createdAt x),
       pur_updatedAt = patch (ch_pur_updatedAt c) (pur_updatedAt x) \<rparr>"

record SettingsPartial =
  ch_showVsYesterday :: "bool option"
  ch_showVsLastWeek :: "bool option"
  ch_showWorkingDays :: "bool option"
  ch_showProductionComparison :: "bool option"
  ch_showPurchaseComparison :: "bool option"
  ch_set_theme :: "theme option"
  ch_set_language :: "language option"
  ch_set_updatedAt :: "string option"

definition applySettings :: "SettingsPartial \<Rightarrow> Settings \<Rightarrow> Settings" where
  "applySettings c x =
     \<lparr> showVsYesterday = patch (ch_showVsYesterday c) (showVsYesterday x),
       showVsLastWeek = patch (ch_showVsLastWeek c) (showVsLastWeek x),
       showWorkingDays = patch (ch_showWorkingDays c) (showWorkingDays x),
       showProductionComparison =
         patch (ch_showProductionComparison c) (showProductionComparison x),
       showPurchaseComparison = patch (ch_showPurchaseComparison c) (showPurchaseComparison x),
       set_theme = patch (ch_set_theme c) (set_theme x),
       set_language = patch (ch_set_language c) (set_language x),
       set_updatedAt = patch (ch_set_updatedAt c) (set_updatedAt x) \<rparr>"

section \<open>Settings access (database module)\<close>

text \<open>
  \<open>getSettings\<close> returns the stored object with its key, or the literal default, which
  has no key and is stamped with the clock.
\<close>

definition getSettings :: "Date \<Rightarrow> DB \<Rightarrow> nat option \<times> Settings" where
  "getSettings now db =
     (case table_first (settings db) of
        Some (k, s) \<Rightarrow> (Some k, s)
      | None \<Rightarrow>
          (None,
           \<lparr> showVsYesterday = True, showVsLastWeek = True, showWorkingDays = True,
             showProductionComparison = True, showPurchaseComparison = True,
             set_theme = dark, set_language = fr, set_updatedAt = getTimestamp now \<rparr>))"

text \<open>\<open>if (existing?.id)\<close>: there is a first object and its key is not 0.\<close>

definition updateSettings :: "SettingsPartial \<Rightarrow> Date \<Rightarrow> DB \<Rightarrow> DB" where
  "updateSettings updates now db =
     (case table_first (settings db) of
        Some (k, existing) \<Rightarrow>
          if k \<noteq> 0 then
            db\<lparr> settings :=
                 table_update k
                   (applySettings (updates\<lparr> ch_set_updatedAt := Some (getTimestamp now) \<rparr>))
                   (settings db) \<rparr>
          else db
      | None \<Rightarrow> db)"


section \<open>Handlers\<close>

text \<open>
  The handlers are modelled by their effect on the database. What a handler reads from
  the component (its props, its form, the record being edited), from the user (the
  answer to a confirmation dialog) and from the clock is an argument. The lists a page
  reloads for display after a change are not part of the model.
\<close>

subsection \<open>Active site (App and SettingsPage)\<close>

definition handleSiteChange :: "nat \<Rightarrow> DB \<Rightarrow> DB" where
  "handleSiteChange k db =
     (let db1 = db\<lparr> sites :=
                  table_modify (applySite (noSiteChanges\<lparr> ch_site_isActive := Some False \<rparr>))
                    (sites db) \<rparr>;
          db2 = db1\<lparr> sites :=
                  table_update k (applySite (noSiteChanges\<lparr> ch_site_isActive := Some True \<rparr>))
                    (sites db1) \<rparr>
      in db2)"

text \<open>
  \<open>handleSetActiveSite\<close> does the two writes itself and then calls \<open>onSiteChange\<close>,
  which the application binds to \<open>handleSiteChange\<close>.
\<close>

definition handleSetActiveSite :: "nat \<Rightarrow> DB \<Rightarrow> DB" where
  "handleSetActiveSite k db =
     (let db1 = db\<lparr> sites :=
                  table_modify (applySite (noSiteChanges\<lparr> ch_site_isActive := Some False \<rparr>))
                    (sites db) \<rparr>;
          db2 = db1\<lparr> sites :=
                  table_update k (applySite (noSiteChanges\<lparr> ch_site_isActive := Some True \<rparr>))
                    (sites db1) \<rparr>
      in handleSiteChange k db2)"

subsection \<open>Deleting a site (SettingsPage)\<close>

text \<open>
  \<open>sitesProp\<close> and \<open>activeSiteId\<close> are the props of the page, \<open>confirmed\<close> the answer
  to \<open>window.confirm\<close>. With one site or none the handler alerts and returns.
\<close>

definition handleDeleteSite :: "(nat \<times> Site) list \<Rightarrow> nat \<Rightarrow> bool \<Rightarrow> nat \<Rightarrow> DB \<Rightarrow> DB" where
  "handleDeleteSite sitesProp activeSiteId confirmed k db =
     (if length sitesProp \<le> 1 then db
      else if confirmed then
        (let db1 = db\<lparr> sites := table_delete k (sites db) \<rparr>;
             db2 = db1\<lparr> productions := where_siteId_equals_delete prod_siteId k (productions db1) \<rparr>;
             db3 = db2\<lparr> workers := where_siteId_equals_delete wrk_siteId k (workers db2) \<rparr>;
             db4 = db3\<lparr> inventory := where_siteId_equals_delete inv_siteId k (inventory db3) \<rparr>;
             db5 = db4\<lparr> purchases := where_siteId_equals_delete pur_siteId k (purchases db4) \<rparr>;
             db6 = db5\<lparr> dailyReports := where_siteId_equals_delete rep_siteId k (dailyReports db5) \<rparr>
         in if k = activeSiteId \<and> length sitesProp > 1 then
              (case find (\<lambda>(i, s). i \<noteq> k) sitesProp of
                 Some (r, remaining) \<Rightarrow> if r \<noteq> 0 then handleSiteChange r db6 else db6
               | None \<Rightarrow> db6)
            else db6)
      else db)"

subsection \<open>Saving a production (ProductionPage)\<close>

record ProductionForm =
  pf_date :: string
  pf_quantityGrams :: string
  pf_team :: string
  pf_shift :: shift
  pf_notes :: string

text \<open>
  \<open>toNumber\<close> is the platform's \<open>Number(...)\<close> on the text of a number input.
  \<open>dUpdated\<close> and \<open>dCreated\<close> are the clock readings of the two \<open>getTimestamp()\<close>
  calls; the second is read only when a record is added. \<open>editing?.id\<close> holds when
  a record is being edited and its key is not 0.
\<close>

definition production_handleSubmit ::
  "(string \<Rightarrow> number) \<Rightarrow> nat \<Rightarrow> ProductionForm \<Rightarrow> (nat \<times> Production) option \<Rightarrow>
   Date \<Rightarrow> Date \<Rightarrow> DB \<Rightarrow> DB" where
  "production_handleSubmit toNumber siteId formData editingProduction dUpdated dCreated db =
     (let productionData =
            \<lparr> ch_prod_siteId = Some siteId,
              ch_prod_date = Some (pf_date formData),
              ch_prod_quantityGrams = Some (toNumber (pf_quantityGrams formData)),
              ch_prod_team = Some (pf_team formData),
              ch_prod_shift = Some (pf_shift formData),
              ch_prod_notes = Some (pf_notes formData),
              ch_prod_createdAt = None,
              ch_prod_updatedAt = Some (getTimestamp dUpdated) \<rparr>;
          added =
            \<lparr> prod_siteId = siteId,
              prod_date = pf_date formData,
              prod_quantityGrams = toNumber (pf_quantityGrams formData),
              prod_team = pf_team formData,
              prod_shift = pf_shift formData,
              prod_notes = pf_notes formData,
              prod_createdAt = getTimestamp dCreated,
              prod_updatedAt = getTimestamp dUpdated \<rparr>
      in case editingProduction of
           Some (k, e) \<Rightarrow>
             if k \<noteq> 0
             then db\<lparr> productions := table_update k (applyProduction productionData) (productions db) \<rparr>
             else db\<lparr> productions := snd (table_add added (productions db)) \<rparr>
         | None \<Rightarrow> db\<lparr> productions := snd (table_add added (productions db)) \<rparr>)"

subsection \<open>Saving an inventory item (InventoryPage)\<close>

record InventoryForm =
  if_name :: string
  if_category :: inventory_category
  if_quantity :: string
  if_unit :: string
  if_minQuantity :: string
  if_condition :: condition
  if_location :: string
  if_notes :: string

definition inventory_handleSubmit ::
  "(string \<Rightarrow> number) \<Rightarrow> nat \<Rightarrow> InventoryForm \<Rightarrow> (nat \<times> InventoryItem) option \<Rightarrow>
   Date \<Rightarrow> Date \<Rightarrow> DB \<Rightarrow> DB" where
  "inventory_handleSubmit toNumber siteId formData editingItem dUpdated dCreated db =
     (let itemData =
            \<lparr> ch_inv_siteId = Some siteId,
              ch_inv_name = Some (if_name formData),
              ch_inv_category = Some (if_category formData),
              ch_inv_quantity = Some (toNumber (if_quantity formData)),
              ch_inv_unit = Some (if_unit formData),
              ch_inv_minQuantity = Some (toNumber (if_minQuantity formData)),
              ch_inv_condition = Some (if_condition formData),
              ch_inv_location = Some (if_location formData),
              ch_inv_notes = Some (if_notes formData),
              ch_inv_createdAt = None,
              ch_inv_updatedAt = Some (getTimestamp dUpdated) \<rparr>;
          added =
            \<lparr> inv_siteId = siteId,
              inv_name = if_name formData,
              inv_category = if_category formData,
              inv_quantity = toNumber (if_quantity formData),
              inv_unit = if_unit formData,
              inv_minQuantity = toNumber (if_minQuantity formData),
              inv_condition = if_condition formData,
              inv_location = if_location formData,
              inv_notes = if_notes formData,
              inv_createdAt = getTimestamp dCreated,
              inv_updatedAt = getTimestamp dUpdated \<rparr>
      in case editingItem of
           Some (k, e) \<Rightarrow>
             if k \<noteq> 0
             then db\<lparr> inventory := table_update k (applyInventory itemData) (inventory db) \<rparr>
             else db\<lparr> inventory := snd (table_add added (inventory db)) \<rparr>
         | None \<Rightarrow> db\<lparr> inventory := snd (table_add added (inventory db)) \<rparr>)"

subsection \<open>Saving a purchase (PurchasesPage)\<close>

record PurchaseForm =
  uf_item :: string
  uf_amount :: string
  uf_currency :: string
  uf_supplier :: string
  uf_category :: purchase_category
  uf_notes :: string
  uf_receiptPhoto :: string

record PurchasesPage =
  formData :: PurchaseForm
  editingPurchase :: "(nat \<times> Purchase) option"
  receiptPreview :: string
  receiptError :: bool
  isModalOpen :: bool

definition closeModal :: "PurchasesPage \<Rightarrow> PurchasesPage" where
  "closeModal page =
     page\<lparr> isModalOpen := False,
           editingPurchase := None,
           receiptPreview := [],
           receiptError := False,
           formData :=
             \<lparr> uf_item = [], uf_amount = [], uf_currency = ''USD'', uf_supplier = [],
               uf_category = consumables, uf_notes = [], uf_receiptPhoto = [] \<rparr> \<rparr>"

text \<open>\<open>editingPurchase?.receiptPhoto\<close>: the empty string stands for a missing one, both being falsy.\<close>

definition editingReceipt :: "(nat \<times> Purchase) option \<Rightarrow> string" where
  "editingReceipt editing = (case editing of None \<Rightarrow> [] | Some (k, e) \<Rightarrow> pur_receiptPhoto e)"

text \<open>
  \<open>now\<close> is the \<open>new Date()\<close> of the handler, \<open>dUpdated\<close> and \<open>dCreated\<close> the clock
  readings of its two \<open>getTimestamp()\<close> calls. The result is the page after the
  handler and the database after it.
\<close>

definition purchases_handleSubmit ::
  "(string \<Rightarrow> number) \<Rightarrow> nat \<Rightarrow> Date \<Rightarrow> Date \<Rightarrow> Date \<Rightarrow> PurchasesPage \<times> DB \<Rightarrow>
   PurchasesPage \<times> DB" where
  "purchases_handleSubmit toNumber siteId now dUpdated dCreated st =
     (let page = fst st; db = snd st; form = formData page; editing = editingPurchase page in
      if uf_receiptPhoto form = [] \<and> editingReceipt editing = []
      then (page\<lparr> receiptError := True \<rparr>, db)
      else
        (let receipt = (if uf_receiptPhoto form \<noteq> [] then uf_receiptPhoto form
                        else editingReceipt editing);
             purchaseData =
               \<lparr> ch_pur_siteId = Some siteId,
                 ch_pur_item = Some (uf_item form),
                 ch_pur_amount = Some (toNumber (uf_amount form)),
                 ch_pur_currency = Some (uf_currency form),
                 ch_pur_supplier = Some (uf_supplier form),
                 ch_pur_category = Some (uf_category form),
                 ch_pur_receiptPhoto = Some receipt,
                 ch_pur_purchaseDate = Some (formatDate now),
                 ch_pur_purchaseTime = Some (formatTime now),
                 ch_pur_notes = Some (uf_notes form),
                 ch_pur_createdAt = None,
                 ch_pur_updatedAt = Some (getTimestamp dUpdated) \<rparr>;
             added =
               \<lparr> pur_siteId = siteId,
                 pur_item = uf_item form,
                 pur_amount = toNumber (uf_amount form),
                 pur_currency = uf_currency form,
                 pur_supplier = uf_supplier form,
                 pur_category = uf_category form,
                 pur_receiptPhoto = receipt,
                 pur_purchaseDate = formatDate now,
                 pur_purchaseTime = formatTime now,
                 pur_notes = uf_notes form,
                 pur_createdAt = getTimestamp dCreated,
                 pur_updatedAt = getTimestamp dUpdated \<rparr>;
             db' = (case editing of
                      Some (k, e) \<Rightarrow>
                        if k \<noteq> 0
                        then db\<lparr> purchases := table_update k (applyPurchase purchaseData) (purchases db) \<rparr>
                        else db\<lparr> purchases := snd (table_add added (purchases db)) \<rparr>
                    | None \<Rightarrow> db\<lparr> purchases := snd (table_add added (purchases db)) \<rparr>)
         in (closeModal page, db')))"

section \<open>The daily average in the specification's words\<close>



section \<open>Sequences of activations\<close>

text \<open>
  The keys of the sites whose \<open>isActive\<close> flag is set, and the two ways the
  application activates a site: the button of the settings page
  (\<open>handleSetActiveSite\<close>) and the site menu of the header (\<open>handleSiteChange\<close>).
\<close>

definition activeSites :: "DB \<Rightarrow> nat list" where
  "activeSites db = map fst (filter (\<lambda>(i, s). site_isActive s) (rows (sites db)))"

datatype activation = FromSettings nat | FromSiteMenu nat

fun activate :: "activation \<Rightarrow> DB \<Rightarrow> DB" where
  "activate (FromSettings k) db = handleSetActiveSite k db"
| "activate (FromSiteMenu k) db = handleSiteChange k db"

fun activateAll :: "activation list \<Rightarrow> DB \<Rightarrow> DB" where
  "activateAll [] db = db"
| "activateAll (a # as) db = activateAll as (activate a db)"

section \<open>Example data\<close>

definition emptyDB :: DB where
  "emptyDB = \<lparr> sites = emptyTable, productions = emptyTable, workers = emptyTable,
     inventory = emptyTable, purchases = emptyTable, dailyReports = emptyTable,
     settings = emptyTable \<rparr>"

definition helmets :: InventoryItem where
  "helmets =
     \<lparr> inv_siteId = 1, inv_name = ''Casques'', inv_category = safety, inv_quantity = 5,
       inv_unit = ''pieces'', inv_minQuantity = 5, inv_condition = good,
       inv_location = ''Vestiaire'', inv_notes = [],
       inv_createdAt = ''2024-01-01T08:00:00.000Z'',
       inv_updatedAt = ''2024-01-01T08:00:00.000Z'' \<rparr>"

definition january :: DateRange where
  "january = \<lparr> range_start = ''2024-01-01'', range_end = ''2024-01-03'' \<rparr>"

definition noon :: Date where
  "noon = \<lparr> toISOString = ''2024-05-02T12:00:00.000Z'',
            toTimeString = ''12:00:00 GMT+0000 (UTC)'' \<rparr>"

definition hideYesterday :: SettingsPartial where
  "hideYesterday =
     \<lparr> ch_showVsYesterday = Some False, ch_showVsLastWeek = None, ch_showWorkingDays = None,
       ch_showProductionComparison = None, ch_showPurchaseComparison = None,
       ch_set_theme = None, ch_set_language = None, ch_set_updatedAt = None \<rparr>"

definition producedOn :: "string \<Rightarrow> number \<Rightarrow> string \<Rightarrow> Production" where
  "producedOn day grams note =
     \<lparr> prod_siteId = 1, prod_date = day, prod_quantityGrams = grams, prod_team = ''A'',
       prod_shift = morning, prod_notes = note,
       prod_createdAt = ''2024-01-04T08:00:00.000Z'',
       prod_updatedAt = ''2024-01-04T08:00:00.000Z'' \<rparr>"

definition fourDays :: DB where
  "fourDays =
     emptyDB\<lparr> productions :=
                 \<lparr> rows = [(1, producedOn ''2024-01-01'' 300 []),
                           (2, (producedOn ''2024-01-02'' 300 ''a,b'')\<lparr> prod_shift := night \<rparr>),
                           (3, (producedOn ''2024-01-03'' 300 [])\<lparr> prod_shift := afternoon,
                                                               prod_team := ''B'' \<rparr>),
                           (4, producedOn ''2024-01-04'' 300 [])],
                   nextId = 5 \<rparr> \<rparr>"



definition shelves :: DB where
  "shelves =
     emptyDB\<lparr> inventory :=
                 \<lparr> rows = [(1, helmets), (2, helmets\<lparr> inv_quantity := 6 \<rparr>)],
                   nextId = 3 \<rparr> \<rparr>"


definition kolwezi :: Site where
  "kolwezi = \<lparr> site_name = ''Site Kolwezi'', site_location = ''Kolwezi, Lualaba'',
               site_isActive = True, site_createdAt = ''2024-01-01T08:00:00.000Z'' \<rparr>"

definition likasi :: Site where
  "likasi = \<lparr> site_name = ''Site Likasi'', site_location = ''Likasi, Haut-Katanga'',
              site_isActive = False, site_createdAt = ''2024-02-01T08:00:00.000Z'' \<rparr>"

definition twoSites :: DB where
  "twoSites = emptyDB\<lparr> sites := \<lparr> rows = [(1, kolwezi), (2, likasi)], nextId = 3 \<rparr> \<rparr>"

definition stocked :: DB where
  "stocked =
     twoSites\<lparr> productions :=
                  \<lparr> rows = [(1, producedOn ''2024-01-01'' 300 []),
                            (2, (producedOn ''2024-01-02'' 250 [])\<lparr> prod_siteId := 2 \<rparr>)],
                    nextId = 3 \<rparr>,
                inventory :=
                  \<lparr> rows = [(1, helmets\<lparr> inv_siteId := 2 \<rparr>), (4, helmets)], nextId = 5 \<rparr> \<rparr>"

definition dayBefore :: Date where
  "dayBefore = \<lparr> toISOString = ''2024-05-01T09:00:00.000Z'',
                 toTimeString = ''09:00:00 GMT+0000 (UTC)'' \<rparr>"

definition evening :: Date where
  "evening = \<lparr> toISOString = ''2024-05-02T18:30:00.000Z'',
               toTimeString = ''18:30:00 GMT+0000 (UTC)'' \<rparr>"

definition goldForm :: ProductionForm where
  "goldForm = \<lparr> pf_date = ''2024-05-02'', pf_quantityGrams = ''250'', pf_team = ''A'',
                pf_shift = morning, pf_notes = [] \<rparr>"

definition goldFormEdited :: ProductionForm where
  "goldFormEdited = \<lparr> pf_date = ''2024-05-02'', pf_quantityGrams = ''275'', pf_team = ''B'',
                      pf_shift = night, pf_notes = ''recount'' \<rparr>"

definition helmetForm :: InventoryForm where
  "helmetForm = \<lparr> if_name = ''Casques'', if_category = safety, if_quantity = ''25'',
                  if_unit = ''pieces'', if_minQuantity = ''20'', if_condition = good,
                  if_location = ''Vestiaire'', if_notes = [] \<rparr>"

definition helmetFormEdited :: InventoryForm where
  "helmetFormEdited = \<lparr> if_name = ''Casques'', if_category = safety, if_quantity = ''18'',
                        if_unit = ''pieces'', if_minQuantity = ''20'', if_condition = fair,
                        if_location = ''Entrepot'', if_notes = ''worn'' \<rparr>"

text \<open>A stand-in for \<open>Number(...)\<close> on the texts the example forms hold.\<close>

definition exampleNumber :: "string \<Rightarrow> number" where
  "exampleNumber s =
     (if s = ''250'' then 250 else if s = ''275'' then 275 else if s = ''25'' then 25
      else if s = ''18'' then 18 else if s = ''20'' then 20 else if s = ''12.5'' then 25 / 2
      else 0)"

definition fuelForm :: PurchaseForm where
  "fuelForm = \<lparr> uf_item = ''Diesel'', uf_amount = ''12.5'', uf_currency = ''USD'',
                uf_supplier = ''Station'', uf_category = consumables, uf_notes = [],
                uf_receiptPhoto = ''data:image/png;base64,AAAA'' \<rparr>"

definition newPurchasePage :: "PurchaseForm \<Rightarrow> PurchasesPage" where
  "newPurchasePage form =
     \<lparr> formData = form, editingPurchase = None, receiptPreview = uf_receiptPhoto form,
       receiptError = False, isModalOpen = True \<rparr>"

definition goldStored :: Production where
  "goldStored =
     \<lparr> prod_siteId = 1, prod_date = ''2024-05-02'', prod_quantityGrams = 250, prod_team = ''A'',
       prod_shift = morning, prod_notes = [],
       prod_createdAt = ''2024-05-02T12:00:00.000Z'',
       prod_updatedAt = ''2024-05-02T12:00:00.000Z'' \<rparr>"


section \<open>Properties\<close>

subsection \<open>Rounding\<close>







subsection \<open>Percentage of a total\<close>



subsection \<open>Low stock\<close>

text \<open>
  C7. An inventory item is low on stock if and only if its quantity is at most its
  minimum quantity: an item with quantity 5 and minimum 5 is flagged, one with
  quantity 6 and minimum 5 is not. The low-stock count of the report, and the one of
  the inventory page, is the number of items that satisfy the predicate.
\<close>

theorem isLowStock_spec:
  "(isLowStock item \<longleftrightarrow> inv_quantity item \<le> inv_minQuantity item)
   \<and> (inv_quantity item = 5 \<and> inv_minQuantity item = 5 \<longrightarrow> isLowStock item)
   \<and> (inv_quantity item = 6 \<and> inv_minQuantity item = 5 \<longrightarrow> \<not> isLowStock item)
   \<and> lowStockItems (generateReport dateRange db)
       = length (filter isLowStock (table_toArray (inventory db)))
   \<and> lowStockCount items = length (filter isLowStock items)"
  by (auto simp add: isLowStock_def generateReport_def lowStockCount_def Let_def
      cong: filter_cong)

theorem isLowStock_spec_witness:
  "isLowStock helmets \<and> \<not> isLowStock (helmets\<lparr> inv_quantity := 6 \<rparr>)
   \<and> lowStockItems (generateReport january shelves) = 1
   \<and> lowStockCount [helmets, helmets\<lparr> inv_quantity := 6 \<rparr>] = 1"
  using isLowStock_spec [of helmets january shelves "[helmets, helmets\<lparr> inv_quantity := 6 \<rparr>]"]
    isLowStock_spec [of "helmets\<lparr> inv_quantity := 6 \<rparr>" january shelves "[]"]
  by (simp add: helmets_def shelves_def emptyDB_def emptyTable_def table_toArray_def)

subsection \<open>Role hierarchy\<close>

text \<open>
  C9. The role hierarchy maps admin to 3, supervisor to 2 and worker to 1, and
  \<open>canAccess\<close> of a required role holds if and only if the level of the view mode is
  at least the level of the required role. Switching the view mode changes the view
  mode only: the stored user stays as it is, and access is then decided by the new
  view mode.
\<close>

theorem canAccess_spec:
  "roleHierarchy admin = 3 \<and> roleHierarchy supervisor = 2 \<and> roleHierarchy worker = 1
   \<and> (canAccess st requiredRole \<longleftrightarrow> roleHierarchy (viewMode st) \<ge> roleHierarchy requiredRole)
   \<and> user (setViewMode mode st) = user st
   \<and> viewMode (setViewMode mode st) = mode
   \<and> (canAccess (setViewMode mode st) requiredRole
        \<longleftrightarrow> roleHierarchy mode \<ge> roleHierarchy requiredRole)"
  by (simp add: canAccess_def roleHierarchy_def setViewMode_def)

theorem canAccess_spec_witness:
  "canAccess \<lparr> user = None, viewMode = supervisor \<rparr> worker
   \<and> \<not> canAccess \<lparr> user = None, viewMode = supervisor \<rparr> admin
   \<and> \<not> canAccess (setViewMode worker \<lparr> user = None, viewMode = admin \<rparr>) supervisor"
  using canAccess_spec [of "\<lparr> user = None, viewMode = supervisor \<rparr>" worker worker]
    canAccess_spec [of "\<lparr> user = None, viewMode = supervisor \<rparr>" admin worker]
    canAccess_spec [of "\<lparr> user = None, viewMode = admin \<rparr>" supervisor worker]
  by (simp add: roleHierarchy_def)

subsection \<open>Settings on an empty collection\<close>

text \<open>
  C10. With no row in the settings collection, \<open>getSettings\<close> returns the default
  settings (the five display toggles on, the dark theme, French), stamped with the
  clock and without a key, and \<open>updateSettings\<close> leaves the database as it is.
\<close>

theorem settings_empty:
  assumes "rows (settings db) = []"
  shows "getSettings now db =
           (None, \<lparr> showVsYesterday = True, showVsLastWeek = True, showWorkingDays = True,
                    showProductionComparison = True, showPurchaseComparison = True,
                    set_theme = dark, set_language = fr, set_updatedAt = toISOString now \<rparr>)
         \<and> updateSettings updates now' db = db"
  using assms by (simp add: getSettings_def updateSettings_def table_first_def getTimestamp_def)

theorem settings_empty_witness:
  "rows (settings emptyDB) = []
   \<and> getSettings noon emptyDB =
       (None, \<lparr> showVsYesterday = True, showVsLastWeek = True, showWorkingDays = True,
                showProductionComparison = True, showPurchaseComparison = True,
                set_theme = dark, set_language = fr,
                set_updatedAt = ''2024-05-02T12:00:00.000Z'' \<rparr>)
   \<and> updateSettings hideYesterday noon emptyDB = emptyDB"
proof -
  have h: "rows (settings emptyDB) = []"
    by (simp add: emptyDB_def emptyTable_def)
  show ?thesis
    using h settings_empty [OF h, of noon hideYesterday noon] by (simp add: noon_def)
qed

subsection \<open>The active site\<close>

lemma sites_handleSiteChange:
  "sites (handleSiteChange k db) =
     (sites db)\<lparr> rows := map (\<lambda>(i, s). (i, s\<lparr> site_isActive := (i = k) \<rparr>)) (rows (sites db)) \<rparr>"
  by (auto simp add: handleSiteChange_def Let_def table_modify_def table_update_def applySite_def
      noSiteChanges_def patch_def comp_def split_def)

lemma other_handleSiteChange:
  "productions (handleSiteChange k db) = productions db"
  "workers (handleSiteChange k db) = workers db"
  "inventory (handleSiteChange k db) = inventory db"
  "purchases (handleSiteChange k db) = purchases db"
  "dailyReports (handleSiteChange k db) = dailyReports db"
  "settings (handleSiteChange k db) = settings db"
  by (simp_all add: handleSiteChange_def Let_def)

lemma handleSetActiveSite_eq: "handleSetActiveSite k db = handleSiteChange k (handleSiteChange k db)"
  by (simp add: handleSetActiveSite_def handleSiteChange_def Let_def)

lemma sites_handleSetActiveSite:
  "sites (handleSetActiveSite k db) =
     (sites db)\<lparr> rows := map (\<lambda>(i, s). (i, s\<lparr> site_isActive := (i = k) \<rparr>)) (rows (sites db)) \<rparr>"
  by (simp add: handleSetActiveSite_eq sites_handleSiteChange comp_def split_def)

lemma activeSites_flagged:
  "map fst (filter (\<lambda>(i, s). site_isActive s)
      (map (\<lambda>(i, s). (i, s\<lparr> site_isActive := (i = k) \<rparr>)) rs))
   = filter (\<lambda>i. i = k) (map fst rs)"
  by (induction rs) auto

lemma activeSites_activate:
  "activeSites (activate a db)
     = filter (\<lambda>i. i = (case a of FromSettings k \<Rightarrow> k | FromSiteMenu k \<Rightarrow> k)) (keysOf (sites db))"
  by (cases a)
    (simp_all add: activeSites_def keysOf_def sites_handleSiteChange sites_handleSetActiveSite
      activeSites_flagged)

lemma keysOf_activate: "keysOf (sites (activate a db)) = keysOf (sites db)"
  by (cases a)
    (auto simp add: keysOf_def sites_handleSiteChange sites_handleSetActiveSite split_def)

lemma filter_eq_absent: "k \<notin> set xs \<Longrightarrow> filter (\<lambda>i. i = k) xs = []"
  by (induction xs) auto

lemma distinct_filter_eq_le1: "distinct xs \<Longrightarrow> length (filter (\<lambda>i. i = k) xs) \<le> 1"
  by (induction xs) (auto simp add: filter_eq_absent)

lemma distinct_filter_eq_mem:
  "distinct xs \<Longrightarrow> k \<in> set xs \<Longrightarrow> filter (\<lambda>i. i = k) xs = [k]"
  by (induction xs) (auto simp add: filter_eq_absent)

lemma activateAll_at_most_one:
  "distinct (keysOf (sites db)) \<Longrightarrow> length (activeSites db) \<le> 1 \<Longrightarrow>
   length (activeSites (activateAll ops db)) \<le> 1"
proof (induction ops arbitrary: db)
  case Nil
  then show ?case by simp
next
  case (Cons a ops)
  have "distinct (keysOf (sites (activate a db)))"
    using Cons.prems(1) by (simp add: keysOf_activate)
  moreover have "length (activeSites (activate a db)) \<le> 1"
    unfolding activeSites_activate using Cons.prems(1) by (rule distinct_filter_eq_le1)
  ultimately show ?case
    using Cons.IH by simp
qed

text \<open>
  C3. Each activation clears \<open>isActive\<close> on every site and then sets it on the chosen
  site only: afterwards a site is active if and only if its key is the chosen one.
  Hence, the keys of the sites being distinct, after any sequence of activations that
  starts from a state with at most one active site, at most one site is active.
\<close>

theorem activate_at_most_one:
  assumes "distinct (keysOf (sites db))" and "length (activeSites db) \<le> 1"
  shows "length (activeSites (activateAll ops db)) \<le> 1
    \<and> rows (sites (handleSetActiveSite k db))
        = map (\<lambda>(i, s). (i, s\<lparr> site_isActive := (i = k) \<rparr>)) (rows (sites db))
    \<and> rows (sites (handleSiteChange k db))
        = map (\<lambda>(i, s). (i, s\<lparr> site_isActive := (i = k) \<rparr>)) (rows (sites db))
    \<and> (if k \<in> set (keysOf (sites db))
        then activeSites (handleSetActiveSite k db) = [k] \<and> activeSites (handleSiteChange k db) = [k]
        else activeSites (handleSetActiveSite k db) = [] \<and> activeSites (handleSiteChange k db) = [])"
proof -
  note d = assms(1)
  have seq: "length (activeSites (activateAll ops db)) \<le> 1"
    using d assms(2) by (rule activateAll_at_most_one)
  have a1: "activeSites (handleSetActiveSite k db) = filter (\<lambda>i. i = k) (keysOf (sites db))"
    using activeSites_activate [of "FromSettings k" db] by simp
  have a2: "activeSites (handleSiteChange k db) = filter (\<lambda>i. i = k) (keysOf (sites db))"
    using activeSites_activate [of "FromSiteMenu k" db] by simp
  have none: "filter (\<lambda>i. i = k) (keysOf (sites db)) = []" if "k \<notin> set (keysOf (sites db))"
    using that by (rule filter_eq_absent)
  show ?thesis
    using seq d none
    by (simp add: sites_handleSetActiveSite sites_handleSiteChange a1 a2 distinct_filter_eq_mem)
qed

theorem activate_at_most_one_witness:
  "distinct (keysOf (sites twoSites)) \<and> length (activeSites twoSites) \<le> 1
   \<and> length (activeSites (activateAll [FromSettings 2, FromSiteMenu 1, FromSettings 2] twoSites)) \<le> 1
   \<and> activeSites (handleSetActiveSite 2 twoSites) = [2]
   \<and> map (\<lambda>(i, s). (i, site_isActive s)) (rows (sites (handleSetActiveSite 2 twoSites)))
        = [(1, False), (2, True)]"
proof -
  have w: "distinct (keysOf (sites twoSites))"
    by (simp add: keysOf_def twoSites_def)
  have a: "length (activeSites twoSites) \<le> 1"
    by (simp add: activeSites_def twoSites_def kolwezi_def likasi_def)
  show ?thesis
    using w a activate_at_most_one [OF w a, of "[FromSettings 2, FromSiteMenu 1, FromSettings 2]" 2]
    by (simp add: keysOf_def twoSites_def)
qed

subsection \<open>Date strings\<close>

text \<open>
  The program compares dates as strings. For two valid date-only strings this is the
  comparison of the days they denote: the digits are compared from the left, the
  year before the month before the day, and the day number grows with the year, then
  the month, then the day.
\<close>

lemma digitValue_SomeD:
  "digitValue c = Some d \<Longrightarrow> d < 10 \<and> (of_char c :: nat) = 48 + d"
  by (auto simp add: digitValue_def Let_def split: if_splits)

lemma digitValue_order:
  assumes "digitValue c = Some d" and "digitValue c' = Some d'"
  shows "(c < c' \<longleftrightarrow> d < d') \<and> (c = c' \<longleftrightarrow> d = d')"
proof -
  have c: "(of_char c :: nat) = 48 + d" and c': "(of_char c' :: nat) = 48 + d'"
    using assms by (simp_all add: digitValue_SomeD)
  have "c < c' \<longleftrightarrow> d < d'"
    by (simp add: less_char_def c c')
  moreover have "c = c' \<longleftrightarrow> d = d'"
  proof
    assume "c = c'"
    with c c' show "d = d'" by simp
  next
    assume "d = d'"
    with c c' have "(of_char c :: nat) = of_char c'" by simp
    then show "c = c'" by (simp only: of_char_eq_iff)
  qed
  ultimately show ?thesis by simp
qed

lemma digitsValue_acc:
  "digitsValue acc cs =
     (case digitsValue 0 cs of None \<Rightarrow> None | Some m \<Rightarrow> Some (acc * 10 ^ length cs + m))"
proof (induction cs arbitrary: acc)
  case Nil
  then show ?case by simp
next
  case (Cons c cs)
  show ?case
  proof (cases "digitValue c")
    case None
    then show ?thesis by simp
  next
    case (Some d)
    have l: "digitsValue acc (c # cs) = digitsValue (10 * acc + d) cs"
      using Some by simp
    have r: "digitsValue 0 (c # cs) = digitsValue d cs"
      using Some by simp
    show ?thesis
      unfolding l r
      by (subst Cons.IH [of "10 * acc + d"], subst Cons.IH [of d])
        (simp add: algebra_simps split: option.split)
  qed
qed

lemma digitsValue_bound: "digitsValue 0 cs = Some m \<Longrightarrow> m < 10 ^ length cs"
proof (induction cs arbitrary: m)
  case Nil
  then show ?case by simp
next
  case (Cons c cs)
  from Cons.prems obtain d where d: "digitValue c = Some d"
    by (cases "digitValue c") simp_all
  with Cons.prems have "digitsValue d cs = Some m" by simp
  then obtain m' where m': "digitsValue 0 cs = Some m'" and m: "m = d * 10 ^ length cs + m'"
    by (subst (asm) digitsValue_acc) (auto split: option.splits)
  have "m' < 10 ^ length cs" using Cons.IH m' by simp
  moreover have "d < 10" using d by (simp add: digitValue_SomeD)
  ultimately have "d * 10 ^ length cs + m' < 10 * 10 ^ length cs"
  proof -
    assume a: "m' < 10 ^ length cs" and b: "d < 10"
    have "d * 10 ^ length cs + m' < (d + 1) * 10 ^ length cs" using a by simp
    also have "\<dots> \<le> 10 * 10 ^ length cs" using b by (intro mult_le_mono1) simp
    finally show ?thesis .
  qed
  then show ?case using m by simp
qed

lemma digitsValue_Cons:
  assumes "digitsValue 0 (c # cs) = Some m"
  obtains d m' where "digitValue c = Some d" and "digitsValue 0 cs = Some m'"
    and "m = d * 10 ^ length cs + m'" and "m' < 10 ^ length cs"
proof -
  from assms obtain d where d: "digitValue c = Some d"
    by (cases "digitValue c") simp_all
  with assms have "digitsValue d cs = Some m" by simp
  then obtain m' where m': "digitsValue 0 cs = Some m'" and m: "m = d * 10 ^ length cs + m'"
    by (subst (asm) digitsValue_acc) (auto split: option.splits)
  from m' have "m' < 10 ^ length cs" by (rule digitsValue_bound)
  with d m' m show ?thesis by (rule that)
qed

lemma digits_order:
  "length u = length v \<Longrightarrow> digitsValue 0 u = Some m \<Longrightarrow> digitsValue 0 v = Some n \<Longrightarrow>
   (u < v \<longleftrightarrow> m < n) \<and> (u = v \<longleftrightarrow> m = n)"
proof (induction u v arbitrary: m n rule: list_induct2)
  case Nil
  then show ?case by simp
next
  case (Cons c cs c' cs')
  from Cons.prems(1) obtain d m' where d: "digitValue c = Some d"
    and m': "digitsValue 0 cs = Some m'" and m: "m = d * 10 ^ length cs + m'"
    and bm: "m' < 10 ^ length cs"
    by (rule digitsValue_Cons)
  from Cons.prems(2) obtain e n' where e: "digitValue c' = Some e"
    and n': "digitsValue 0 cs' = Some n'" and n: "n = e * 10 ^ length cs' + n'"
    and bn: "n' < 10 ^ length cs'"
    by (rule digitsValue_Cons)
  let ?P = "(10::nat) ^ length cs"
  have P: "(10::nat) ^ length cs' = ?P" using Cons.hyps by simp
  have ih: "(cs < cs' \<longleftrightarrow> m' < n') \<and> (cs = cs' \<longleftrightarrow> m' = n')"
    using Cons.IH m' n' by simp
  have ch: "(c < c' \<longleftrightarrow> d < e) \<and> (c = c' \<longleftrightarrow> d = e)"
    using d e by (rule digitValue_order)
  have lt: "d * ?P + m' < e * ?P + n'" if "d < e"
  proof -
    have "d * ?P + m' < (d + 1) * ?P" using bm by simp
    also have "\<dots> \<le> e * ?P" using that by (intro mult_le_mono1) simp
    finally show ?thesis by simp
  qed
  have gt: "e * ?P + n' < d * ?P + m'" if "e < d"
  proof -
    have "e * ?P + n' < (e + 1) * ?P" using bn P by simp
    also have "\<dots> \<le> d * ?P" using that by (intro mult_le_mono1) simp
    finally show ?thesis by simp
  qed
  have less: "m < n \<longleftrightarrow> d < e \<or> (d = e \<and> m' < n')"
    unfolding m n P using lt gt by (cases d e rule: linorder_cases) auto
  have eq: "m = n \<longleftrightarrow> d = e \<and> m' = n'"
    unfolding m n P using lt gt by (cases d e rule: linorder_cases) auto
  show ?case
    using ih ch less eq by auto
qed

lemma append_less_same_length:
  "length u = length v \<Longrightarrow> (u @ s < v @ t \<longleftrightarrow> u < v \<or> (u = v \<and> s < t))"
  for u v :: "'a::linorder list"
  by (induction u v rule: list_induct2) auto

lemma append_le_same_length:
  "length u = length v \<Longrightarrow> (u @ s \<le> v @ t \<longleftrightarrow> u < v \<or> (u = v \<and> s \<le> t))"
  for u v :: "'a::linorder list"
  by (induction u v rule: list_induct2) auto

lemma div_step:
  fixes a k :: int
  assumes "0 < k"
  shows "(a + 1) div k = a div k + (if (a + 1) mod k = 0 then 1 else 0)"
proof -
  define q where "q = a div k"
  define r where "r = a mod k"
  have a: "a = q * k + r" by (simp add: q_def r_def)
  have r: "0 \<le> r" "r < k" using assms by (simp_all add: r_def)
  show ?thesis
  proof (cases "r + 1 = k")
    case True
    then have "a + 1 = (q + 1) * k" using a by (simp add: algebra_simps)
    then have "(a + 1) div k = q + 1" and "(a + 1) mod k = 0"
      using assms by simp_all
    then show ?thesis by (simp add: q_def)
  next
    case False
    then have r': "0 \<le> r + 1" "r + 1 < k" using r by simp_all
    have k0: "k \<noteq> 0" using assms by simp
    have a1: "a + 1 = q * k + (r + 1)" using a by simp
    have "(a + 1) div k = q + (r + 1) div k"
      unfolding a1 using k0 by (rule div_mult_self3)
    moreover have "(a + 1) mod k = (r + 1) mod k"
      unfolding a1 by (rule mod_mult_self3)
    ultimately have "(a + 1) div k = q + (r + 1) div k" and "(a + 1) mod k = (r + 1) mod k"
      by blast+
    then have "(a + 1) div k = q" and "(a + 1) mod k = r + 1"
      using r' by simp_all
    then show ?thesis using r by (simp add: q_def)
  qed
qed

lemma mod_shift4: "(y - 1968) mod 4 = 0 \<longleftrightarrow> y mod 4 = 0" for y :: int
proof -
  have "(y - 1968) mod 4 = (y + (- 492) * 4) mod 4" by simp
  also have "\<dots> = y mod 4" by (rule mod_mult_self1)
  finally show ?thesis by simp
qed

lemma mod_shift100: "(y - 1900) mod 100 = 0 \<longleftrightarrow> y mod 100 = 0" for y :: int
proof -
  have "(y - 1900) mod 100 = (y + (- 19) * 100) mod 100" by simp
  also have "\<dots> = y mod 100" by (rule mod_mult_self1)
  finally show ?thesis by simp
qed

lemma mod_shift400: "(y - 1600) mod 400 = 0 \<longleftrightarrow> y mod 400 = 0" for y :: int
proof -
  have "(y - 1600) mod 400 = (y + (- 4) * 400) mod 400" by simp
  also have "\<dots> = y mod 400" by (rule mod_mult_self1)
  finally show ?thesis by simp
qed

lemma mod_100_4: "y mod 100 = 0 \<Longrightarrow> y mod 4 = 0" for y :: int
proof -
  assume h: "y mod 100 = 0"
  have "(4::int) dvd 100" by simp
  then have "y mod 100 mod 4 = y mod 4" by (rule mod_mod_cancel)
  with h show ?thesis by simp
qed

lemma mod_400_100: "y mod 400 = 0 \<Longrightarrow> y mod 100 = 0" for y :: int
proof -
  assume h: "y mod 400 = 0"
  have "(100::int) dvd 400" by simp
  then have "y mod 400 mod 100 = y mod 100" by (rule mod_mod_cancel)
  with h show ?thesis by simp
qed


lemma DayFromYear_Suc:
  "DayFromYear (y + 1) = DayFromYear y + (if InLeapYear y then 366 else 365)"
proof -
  have a: "(y - 1968) div 4 = (y - 1969) div 4 + (if y mod 4 = 0 then 1 else 0)"
    using div_step [of 4 "y - 1969"] mod_shift4 [of y] by simp
  have b: "(y - 1900) div 100 = (y - 1901) div 100 + (if y mod 100 = 0 then 1 else 0)"
    using div_step [of 100 "y - 1901"] mod_shift100 [of y] by simp
  have c: "(y - 1600) div 400 = (y - 1601) div 400 + (if y mod 400 = 0 then 1 else 0)"
    using div_step [of 400 "y - 1601"] mod_shift400 [of y] by simp
  have "DayFromYear (y + 1)
          = 365 * (y - 1969) + (y - 1968) div 4 - (y - 1900) div 100 + (y - 1600) div 400"
    by (simp add: DayFromYear_def)
  also have "\<dots> = DayFromYear y + 365 + (if y mod 4 = 0 then 1 else 0)
                 - (if y mod 100 = 0 then 1 else 0) + (if y mod 400 = 0 then 1 else 0)"
    unfolding a b c DayFromYear_def by simp
  also have "\<dots> = DayFromYear y + (if InLeapYear y then 366 else 365)"
    using mod_100_4 [of y] mod_400_100 [of y] by (auto simp add: InLeapYear_def)
  finally show ?thesis .
qed


lemma DayFromYear_mono: "y \<le> y' \<Longrightarrow> DayFromYear y \<le> DayFromYear y'"
proof (induction "nat (y' - y)" arbitrary: y')
  case 0
  then show ?case by simp
next
  case (Suc n)
  then have "n = nat ((y' - 1) - y)" and "y \<le> y' - 1" by simp_all
  then have "DayFromYear y \<le> DayFromYear (y' - 1)" by (rule Suc.hyps(1))
  also have "\<dots> \<le> DayFromYear y'"
    using DayFromYear_Suc [of "y' - 1"] by (simp split: if_splits)
  finally show ?case .
qed

lemma DayWithinYear_Suc:
  assumes "1 \<le> m" and "m \<le> 11"
  shows "DayWithinYear y (Suc m) = DayWithinYear y m + DaysInMonth y m"
proof -
  have "m = 1 \<or> m = 2 \<or> m = 3 \<or> m = 4 \<or> m = 5 \<or> m = 6 \<or> m = 7 \<or> m = 8 \<or> m = 9
        \<or> m = 10 \<or> m = 11"
    using assms by arith
  then show ?thesis
    by (elim disjE) (simp_all add: DayWithinYear_def DaysInMonth_def)
qed

lemma DaysInMonth_pos: "0 < DaysInMonth y m"
  by (simp add: DaysInMonth_def)

lemma DayWithinYear_less:
  "1 \<le> m \<Longrightarrow> m < m' \<Longrightarrow> m' \<le> 12 \<Longrightarrow>
   DayWithinYear y m + DaysInMonth y m \<le> DayWithinYear y m'"
proof (induction m' arbitrary: m)
  case 0
  then show ?case by simp
next
  case (Suc k)
  have step: "DayWithinYear y (Suc k) = DayWithinYear y k + DaysInMonth y k"
    using Suc.prems by (intro DayWithinYear_Suc) simp_all
  show ?case
  proof (cases "m = k")
    case True
    then show ?thesis using step by simp
  next
    case False
    then have "DayWithinYear y m + DaysInMonth y m \<le> DayWithinYear y k"
      using Suc.prems by (intro Suc.IH) simp_all
    then show ?thesis using step DaysInMonth_pos [of y k] by simp
  qed
qed

lemma DayWithinYear_nonneg:
  assumes "1 \<le> m" and "m \<le> 12"
  shows "0 \<le> DayWithinYear y m"
proof (cases "m = 1")
  case True
  then show ?thesis by (simp add: DayWithinYear_def)
next
  case False
  then have "DayWithinYear y 1 + DaysInMonth y 1 \<le> DayWithinYear y m"
    using assms by (intro DayWithinYear_less) simp_all
  then show ?thesis by (simp add: DayWithinYear_def DaysInMonth_def)
qed

lemma DayWithinYear_end:
  assumes "1 \<le> m" and "m \<le> 12"
  shows "DayWithinYear y m + DaysInMonth y m \<le> (if InLeapYear y then 366 else 365)"
proof (cases "m = 12")
  case True
  then show ?thesis by (simp add: DayWithinYear_def DaysInMonth_def)
next
  case False
  then have "DayWithinYear y m + DaysInMonth y m \<le> DayWithinYear y 12"
    using assms by (intro DayWithinYear_less) simp_all
  moreover have "DayWithinYear y 12 = 334 + (if InLeapYear y then 1 else 0)"
    by (simp add: DayWithinYear_def)
  ultimately show ?thesis by (simp split: if_splits)
qed

lemma MakeDay_less_year:
  assumes "1 \<le> m" "m \<le> 12" "1 \<le> d" "int d \<le> DaysInMonth y m"
    and "1 \<le> m'" "m' \<le> 12" "1 \<le> d'"
    and "y < y'"
  shows "MakeDay y m d < MakeDay y' m' d'"
proof -
  have "MakeDay y m d < DayFromYear y + (if InLeapYear y then 366 else 365)"
    using DayWithinYear_end [of m y] assms(1-4) by (simp add: MakeDay_def split: if_splits)
  also have "\<dots> = DayFromYear (y + 1)" by (simp add: DayFromYear_Suc)
  also have "\<dots> \<le> DayFromYear y'" using assms(8) by (intro DayFromYear_mono) simp
  also have "\<dots> \<le> MakeDay y' m' d'"
    using DayWithinYear_nonneg [of m' y'] assms(5-7) by (simp add: MakeDay_def)
  finally show ?thesis .
qed

lemma MakeDay_less_month:
  assumes "1 \<le> m" "1 \<le> d" "int d \<le> DaysInMonth y m" "m' \<le> 12" "1 \<le> d'" "m < m'"
  shows "MakeDay y m d < MakeDay y m' d'"
  using DayWithinYear_less [of m m' y] assms by (simp add: MakeDay_def)

lemma MakeDay_order:
  assumes "1 \<le> m" "m \<le> 12" "1 \<le> d" "int d \<le> DaysInMonth y m"
    and "1 \<le> m'" "m' \<le> 12" "1 \<le> d'" "int d' \<le> DaysInMonth y' m'"
  shows "MakeDay y m d \<le> MakeDay y' m' d'
           \<longleftrightarrow> y < y' \<or> (y = y' \<and> (m < m' \<or> (m = m' \<and> d \<le> d')))"
proof -
  consider "y < y'" | "y' < y" | "y = y'" "m < m'" | "y = y'" "m' < m" | "y = y'" "m = m'"
    by linarith
  then show ?thesis
  proof cases
    case 1
    then show ?thesis using MakeDay_less_year [OF assms(1-4) assms(5-7) 1] by simp
  next
    case 2
    then show ?thesis using MakeDay_less_year [OF assms(5-8) assms(1-3) 2] by simp
  next
    case 3
    then show ?thesis
      using MakeDay_less_month [OF assms(1) assms(3) assms(4) assms(6) assms(7) 3(2)] by simp
  next
    case 4
    then show ?thesis
      using MakeDay_less_month [of m' d' y' m d] assms by simp
  next
    case 5
    have "int d - 1 < int d' \<longleftrightarrow> d \<le> d'" by linarith
    with 5 show ?thesis by (simp add: MakeDay_def)
  qed
qed

lemma parseDay_SomeE:
  assumes "parseDay a = Some x"
  obtains ys ms ds Y M D where
    "a = ys @ CHR ''-'' # ms @ CHR ''-'' # ds"
    "length ys = 4" "length ms = 2" "length ds = 2"
    "digitsValue 0 ys = Some Y" "digitsValue 0 ms = Some M" "digitsValue 0 ds = Some D"
    "1 \<le> M" "M \<le> 12" "1 \<le> D" "int D \<le> DaysInMonth (int Y) M"
    "x = MakeDay (int Y) M D"
proof -
  from assms have len: "length a = 10" and d4: "a ! 4 = CHR ''-''" and d7: "a ! 7 = CHR ''-''"
    by (simp_all add: parseDay_def split: if_splits)
  from assms len d4 d7 obtain Y M D where
    Y: "digitsValue 0 (take 4 a) = Some Y" and M: "digitsValue 0 (take 2 (drop 5 a)) = Some M"
    and D: "digitsValue 0 (drop 8 a) = Some D"
    and v: "1 \<le> M" "M \<le> 12" "1 \<le> D" "int D \<le> DaysInMonth (int Y) M"
    and x: "x = MakeDay (int Y) M D"
    by (auto simp add: parseDay_def split: if_splits option.splits)
  have a1: "a = take 4 a @ a ! 4 # drop 5 a"
    using id_take_nth_drop [of 4 a] len by simp
  have a2: "drop 5 a = take 2 (drop 5 a) @ drop 5 a ! 2 # drop 3 (drop 5 a)"
    using id_take_nth_drop [of 2 "drop 5 a"] len by simp
  have a3: "drop 5 a ! 2 = a ! 7" using len by simp
  have a4: "drop 3 (drop 5 a) = drop 8 a" by simp
  have "a = take 4 a @ CHR ''-'' # take 2 (drop 5 a) @ CHR ''-'' # drop 8 a"
    using a1 a2 a3 a4 d4 d7 by metis
  moreover have "length (take 4 a) = 4" "length (take 2 (drop 5 a)) = 2" "length (drop 8 a) = 2"
    using len by simp_all
  ultimately show ?thesis
    using Y M D v x by (rule that)
qed

lemma parseDay_order:
  assumes "parseDay a = Some x" and "parseDay b = Some y"
  shows "a \<le> b \<longleftrightarrow> x \<le> y"
proof -
  from assms(1) obtain ys ms ds Y M D where
    a: "a = ys @ CHR ''-'' # ms @ CHR ''-'' # ds"
    and la: "length ys = 4" "length ms = 2" "length ds = 2"
    and va: "digitsValue 0 ys = Some Y" "digitsValue 0 ms = Some M" "digitsValue 0 ds = Some D"
    and ca: "1 \<le> M" "M \<le> 12" "1 \<le> D" "int D \<le> DaysInMonth (int Y) M"
    and x: "x = MakeDay (int Y) M D"
    by (rule parseDay_SomeE)
  from assms(2) obtain ys' ms' ds' Y' M' D' where
    b: "b = ys' @ CHR ''-'' # ms' @ CHR ''-'' # ds'"
    and lb: "length ys' = 4" "length ms' = 2" "length ds' = 2"
    and vb: "digitsValue 0 ys' = Some Y'" "digitsValue 0 ms' = Some M'"
      "digitsValue 0 ds' = Some D'"
    and cb: "1 \<le> M'" "M' \<le> 12" "1 \<le> D'" "int D' \<le> DaysInMonth (int Y') M'"
    and y: "y = MakeDay (int Y') M' D'"
    by (rule parseDay_SomeE)
  have oy: "(ys < ys' \<longleftrightarrow> Y < Y') \<and> (ys = ys' \<longleftrightarrow> Y = Y')"
    using la(1) lb(1) va(1) vb(1) by (intro digits_order) simp_all
  have om: "(ms < ms' \<longleftrightarrow> M < M') \<and> (ms = ms' \<longleftrightarrow> M = M')"
    using la(2) lb(2) va(2) vb(2) by (intro digits_order) simp_all
  have od: "(ds < ds' \<longleftrightarrow> D < D') \<and> (ds = ds' \<longleftrightarrow> D = D')"
    using la(3) lb(3) va(3) vb(3) by (intro digits_order) simp_all
  have ly: "length ys = length ys'" and lm: "length ms = length ms'"
    using la lb by simp_all
  have "a \<le> b \<longleftrightarrow> ys < ys' \<or> (ys = ys' \<and> (ms < ms' \<or> (ms = ms' \<and> ds \<le> ds')))"
    unfolding a b
    by (simp add: append_le_same_length [OF ly] append_le_same_length [OF lm])
  also have "\<dots> \<longleftrightarrow> Y < Y' \<or> (Y = Y' \<and> (M < M' \<or> (M = M' \<and> D \<le> D')))"
    using oy om od by (auto simp add: le_less)
  also have "\<dots> \<longleftrightarrow> int Y < int Y' \<or> (int Y = int Y' \<and> (M < M' \<or> (M = M' \<and> D \<le> D')))"
    by simp
  also have "\<dots> \<longleftrightarrow> x \<le> y"
    unfolding x y using MakeDay_order [OF ca cb] by simp
  finally show ?thesis .
qed

subsection \<open>Daily average\<close>

lemmas date_eval = Date_getTime_def parseDay_def digitValue_def MakeDay_def DayFromYear_def
  DayWithinYear_def DaysInMonth_def InLeapYear_def

lemma parseDay_jan1: "parseDay ''2024-01-01'' = Some 19723"
  by (simp add: date_eval)

lemma parseDay_jan3: "parseDay ''2024-01-03'' = Some 19725"
  by (simp add: date_eval)








subsection \<open>CSV export\<close>

lemma join_comma_5: "join sep [a, b, c, d, e] = a @ sep @ b @ sep @ c @ sep @ d @ sep @ e"
  by simp

lemma count_list_append: "count_list (xs @ ys) c = count_list xs c + count_list ys c"
  by (induction xs) simp_all

lemma count_shiftString: "count_list (shiftString s) CHR '','' = 0"
  by (cases s) (simp_all add: shiftString_def)

text \<open>
  C8. The export is the header line followed by one line for each production whose
  date lies within the selected range (both ends included), in the order of the
  table, the lines separated by line feeds. The columns are, in this order, the date,
  the quantity in grams, the team, the shift and the notes, under the header cells
  \<open>Date\<close>, \<open>Quantit\<close>e\<open> (g)\<close>, E\<open>quipe\<close>, \<open>Quart\<close>, \<open>Notes\<close>; the cells are
  separated by commas. The shift cell is the shift's own name, \<open>morning\<close>,
  \<open>afternoon\<close> or \<open>night\<close>. No cell is quoted or escaped: a line holds the cell texts as
  they are, so that it has four commas more than its cells hold together. The dates
  are compared as strings; where the two ends of the range and the date of a
  production are valid dates, the production is within the range if and only if its
  day is not before the day of the start and not after the day of the end.
\<close>

theorem exportCSV_spec:
  "exportCSV numStr dateRange db =
     join [CHR 0x0A]
       ((''Date,Quantit'' @ [CHR 0xC3, CHR 0xA9] @ '' (g),'' @ [CHR 0xC3, CHR 0x89]
           @ ''quipe,Quart,Notes'')
        # map (\<lambda>p. prod_date p @ '','' @ numStr (prod_quantityGrams p) @ '','' @ prod_team p
                    @ '','' @ shiftString (prod_shift p) @ '','' @ prod_notes p)
            (filter (\<lambda>p. range_start dateRange \<le> prod_date p \<and> prod_date p \<le> range_end dateRange)
               (map snd (rows (productions db)))))
   \<and> count_list (prod_date p @ '','' @ numStr (prod_quantityGrams p) @ '','' @ prod_team p
                    @ '','' @ shiftString (prod_shift p) @ '','' @ prod_notes p) CHR '',''
       = 4 + count_list (prod_date p) CHR '','' + count_list (numStr (prod_quantityGrams p)) CHR '',''
           + count_list (prod_team p) CHR '','' + count_list (prod_notes p) CHR '',''
   \<and> (parseDay (range_start dateRange) = Some s \<and> parseDay (range_end dateRange) = Some e
        \<and> parseDay (prod_date p) = Some d \<longrightarrow>
        (range_start dateRange \<le> prod_date p \<and> prod_date p \<le> range_end dateRange
           \<longleftrightarrow> s \<le> d \<and> d \<le> e))
   \<and> shiftString morning = ''morning'' \<and> shiftString afternoon = ''afternoon''
   \<and> shiftString night = ''night''"
proof -
  have inr: "inDateRange dateRange
               = (\<lambda>p. range_start dateRange \<le> prod_date p \<and> prod_date p \<le> range_end dateRange)"
    by (auto simp add: inDateRange_def fun_eq_iff)
  have out: "exportCSV numStr dateRange db =
     join [CHR 0x0A]
       ((''Date,Quantit'' @ [CHR 0xC3, CHR 0xA9] @ '' (g),'' @ [CHR 0xC3, CHR 0x89]
           @ ''quipe,Quart,Notes'')
        # map (\<lambda>p. prod_date p @ '','' @ numStr (prod_quantityGrams p) @ '','' @ prod_team p
                    @ '','' @ shiftString (prod_shift p) @ '','' @ prod_notes p)
            (filter (\<lambda>p. range_start dateRange \<le> prod_date p \<and> prod_date p \<le> range_end dateRange)
               (map snd (rows (productions db)))))"
    by (simp add: exportCSV_def Let_def headers_def csvCells_def inr comp_def table_toArray_def)
  have cnt: "count_list (prod_date p @ '','' @ numStr (prod_quantityGrams p) @ '','' @ prod_team p
                    @ '','' @ shiftString (prod_shift p) @ '','' @ prod_notes p) CHR '',''
       = 4 + count_list (prod_date p) CHR '','' + count_list (numStr (prod_quantityGrams p)) CHR '',''
           + count_list (prod_team p) CHR '','' + count_list (prod_notes p) CHR '',''"
    by (simp add: count_list_append count_shiftString)
  have days: "range_start dateRange \<le> prod_date p \<and> prod_date p \<le> range_end dateRange
                \<longleftrightarrow> s \<le> d \<and> d \<le> e"
    if "parseDay (range_start dateRange) = Some s" and "parseDay (range_end dateRange) = Some e"
      and "parseDay (prod_date p) = Some d"
    using parseDay_order [OF that(1) that(3)] parseDay_order [OF that(3) that(2)] by simp
  have shifts: "shiftString morning = ''morning''" "shiftString afternoon = ''afternoon''"
    "shiftString night = ''night''"
    by (simp_all add: shiftString_def)
  from out cnt days shifts show ?thesis by blast
qed

theorem exportCSV_spec_witness:
  "exportCSV (\<lambda>q. ''300'') january fourDays =
     ''Date,Quantit'' @ [CHR 0xC3, CHR 0xA9] @ '' (g),'' @ [CHR 0xC3, CHR 0x89] @ ''quipe,Quart,Notes''
     @ [CHR 0x0A] @ ''2024-01-01,300,A,morning,''
     @ [CHR 0x0A] @ ''2024-01-02,300,A,night,a,b''
     @ [CHR 0x0A] @ ''2024-01-03,300,B,afternoon,''
   \<and> count_list ''2024-01-02,300,A,night,a,b'' CHR '','' = 5
   \<and> parseDay (range_start january) = Some 19723 \<and> parseDay (range_end january) = Some 19725
   \<and> parseDay (prod_date (producedOn ''2024-01-02'' 300 ''a,b'')) = Some 19724
   \<and> range_start january \<le> ''2024-01-02'' \<and> ''2024-01-02'' \<le> range_end january"
proof -
  have s: "parseDay (range_start january) = Some 19723"
    by (simp add: january_def parseDay_jan1)
  have e: "parseDay (range_end january) = Some 19725"
    by (simp add: january_def parseDay_jan3)
  have d: "parseDay (prod_date (producedOn ''2024-01-02'' 300 ''a,b'')) = Some 19724"
    by (simp add: producedOn_def date_eval)
  show ?thesis
    using s e d
      exportCSV_spec [of "\<lambda>q. ''300''" january fourDays
        "(producedOn ''2024-01-02'' 300 ''a,b'')\<lparr> prod_shift := night \<rparr>" 19723 19725 19724]
    by (simp add: fourDays_def producedOn_def) (simp add: january_def)
qed

subsection \<open>Deleting a site\<close>

lemma handleDeleteSite_tables:
  assumes "1 < length sitesProp" and "confirmed"
  shows "productions (handleDeleteSite sitesProp activeSiteId confirmed k db)
           = where_siteId_equals_delete prod_siteId k (productions db)"
    and "workers (handleDeleteSite sitesProp activeSiteId confirmed k db)
           = where_siteId_equals_delete wrk_siteId k (workers db)"
    and "inventory (handleDeleteSite sitesProp activeSiteId confirmed k db)
           = where_siteId_equals_delete inv_siteId k (inventory db)"
    and "purchases (handleDeleteSite sitesProp activeSiteId confirmed k db)
           = where_siteId_equals_delete pur_siteId k (purchases db)"
    and "dailyReports (handleDeleteSite sitesProp activeSiteId confirmed k db)
           = where_siteId_equals_delete rep_siteId k (dailyReports db)"
    and "settings (handleDeleteSite sitesProp activeSiteId confirmed k db) = settings db"
  using assms
  by (simp_all add: handleDeleteSite_def Let_def other_handleSiteChange
      split: option.split prod.split)

lemma rows_where_delete:
  "rows (where_siteId_equals_delete f k t) = filter (\<lambda>(i, obj). f obj \<noteq> k) (rows t)"
  "nextId (where_siteId_equals_delete f k t) = nextId t"
  by (simp_all add: where_siteId_equals_delete_def)

lemma sites_handleDeleteSite:
  assumes "1 < length sitesProp" and "confirmed"
  shows "keysOf (sites (handleDeleteSite sitesProp activeSiteId confirmed k db))
           = filter (\<lambda>i. i \<noteq> k) (keysOf (sites db))"
  using assms
  by (auto simp add: handleDeleteSite_def Let_def keysOf_def sites_handleSiteChange table_delete_def
      filter_map comp_def split_def split: option.split prod.split)

text \<open>
  C2. When the handler deletes the site with key \<open>k\<close> (there is more than one site
  and the user confirms), each of the five collections whose records carry a
  \<open>siteId\<close> (productions, workers, inventory, purchases, daily reports) keeps exactly
  its rows whose \<open>siteId\<close> is not \<open>k\<close>, unchanged and in their order, and loses
  every row whose \<open>siteId\<close> is \<open>k\<close>. The sixth collection, the settings, has no
  \<open>siteId\<close> and stays as it is. The site itself is gone from the sites.
\<close>

theorem handleDeleteSite_cascade:
  assumes "1 < length sitesProp" and "confirmed"
  shows "(let db' = handleDeleteSite sitesProp activeSiteId confirmed k db in
            rows (productions db') = filter (\<lambda>(i, p). prod_siteId p \<noteq> k) (rows (productions db))
          \<and> rows (workers db') = filter (\<lambda>(i, w). wrk_siteId w \<noteq> k) (rows (workers db))
          \<and> rows (inventory db') = filter (\<lambda>(i, x). inv_siteId x \<noteq> k) (rows (inventory db))
          \<and> rows (purchases db') = filter (\<lambda>(i, x). pur_siteId x \<noteq> k) (rows (purchases db))
          \<and> rows (dailyReports db') = filter (\<lambda>(i, x). rep_siteId x \<noteq> k) (rows (dailyReports db))
          \<and> settings db' = settings db
          \<and> keysOf (sites db') = filter (\<lambda>i. i \<noteq> k) (keysOf (sites db)))"
  using assms
  by (simp add: Let_def handleDeleteSite_tables rows_where_delete sites_handleDeleteSite)

theorem handleDeleteSite_cascade_witness:
  "1 < length (rows (sites stocked))
   \<and> (let db' = handleDeleteSite (rows (sites stocked)) 1 True 1 stocked in
        rows (productions db') = [(2, (producedOn ''2024-01-02'' 250 [])\<lparr> prod_siteId := 2 \<rparr>)]
      \<and> rows (inventory db') = [(1, helmets\<lparr> inv_siteId := 2 \<rparr>)]
      \<and> keysOf (sites db') = [2])"
proof -
  have l: "1 < length (rows (sites stocked))"
    by (simp add: stocked_def twoSites_def)
  have t: True by simp
  show ?thesis
    using l handleDeleteSite_cascade [OF l t, of 1 1 stocked]
    by (simp add: Let_def stocked_def twoSites_def emptyDB_def emptyTable_def producedOn_def
        helmets_def keysOf_def)
qed

subsection \<open>Adding, reading and updating rows\<close>

lemma map_of_append_fresh:
  "k \<notin> set (map fst rs) \<Longrightarrow> map_of (rs @ [(k, v)]) k = Some v"
  by (induction rs) auto

lemma wf_table_fresh: "wf_table t \<Longrightarrow> nextId t \<notin> set (keysOf t)"
  by (auto simp add: wf_table_def list_all_iff)

lemma wf_table_nextId: "wf_table t \<Longrightarrow> nextId t \<noteq> 0"
  by (simp add: wf_table_def)

lemma table_get_add:
  "wf_table t \<Longrightarrow> table_get (nextId t) (snd (table_add obj t)) = Some obj"
proof -
  assume "wf_table t"
  then have "nextId t \<notin> set (map fst (rows t))"
    using wf_table_fresh [of t] by (simp add: keysOf_def)
  then have "map_of (rows t @ [(nextId t, obj)]) (nextId t) = Some obj"
    by (rule map_of_append_fresh)
  then show ?thesis
    by (simp add: table_get_def table_add_def)
qed

lemma wf_table_add: "wf_table t \<Longrightarrow> wf_table (snd (table_add obj t))"
  by (auto simp add: wf_table_def table_add_def keysOf_def list_all_iff)

lemma map_of_update_row:
  "map_of (map (\<lambda>(i, obj). if i = k then (i, f obj) else (i, obj)) rs) j
     = (if j = k then map_option f (map_of rs j) else map_of rs j)"
  by (induction rs) auto

lemma table_get_update:
  "table_get j (table_update k f t) = (if j = k then map_option f (table_get j t) else table_get j t)"
  by (simp add: table_get_def table_update_def map_of_update_row)

lemma keys_update_row:
  "map fst (map (\<lambda>(i, obj). if i = k then (i, f obj) else (i, obj)) rs) = map fst rs"
  by (induction rs) auto

lemma keysOf_update: "keysOf (table_update k f t) = keysOf t"
  unfolding keysOf_def table_update_def using keys_update_row [of k f "rows t"] by simp

lemma wf_table_update: "wf_table t \<Longrightarrow> wf_table (table_update k f t)"
  unfolding wf_table_def keysOf_update by (simp add: table_update_def)

subsection \<open>The receipt of a purchase\<close>

text \<open>
  C5. Submitting a new purchase (none being edited) whose receipt photo is empty is
  rejected by the handler: the receipt error is raised, nothing is added and the
  database is unchanged. Submitting one with a receipt photo adds it under the key the
  table generates, a key no row had before, and reading that key back gives the
  purchase, its receipt photo included.
\<close>

theorem purchases_handleSubmit_receipt:
  assumes "editingPurchase page = None"
  shows "(uf_receiptPhoto (formData page) = [] \<longrightarrow>
            purchases_handleSubmit toNumber siteId now dUpdated dCreated (page, db)
              = (page\<lparr> receiptError := True \<rparr>, db))
       \<and> (uf_receiptPhoto (formData page) \<noteq> [] \<and> wf_table (purchases db) \<longrightarrow>
            (let db' = snd (purchases_handleSubmit toNumber siteId now dUpdated dCreated (page, db));
                 k = nextId (purchases db);
                 stored =
                   \<lparr> pur_siteId = siteId,
                     pur_item = uf_item (formData page),
                     pur_amount = toNumber (uf_amount (formData page)),
                     pur_currency = uf_currency (formData page),
                     pur_supplier = uf_supplier (formData page),
                     pur_category = uf_category (formData page),
                     pur_receiptPhoto = uf_receiptPhoto (formData page),
                     pur_purchaseDate = formatDate now,
                     pur_purchaseTime = formatTime now,
                     pur_notes = uf_notes (formData page),
                     pur_createdAt = toISOString dCreated,
                     pur_updatedAt = toISOString dUpdated \<rparr>
             in k \<notin> set (keysOf (purchases db))
                \<and> rows (purchases db') = rows (purchases db) @ [(k, stored)]
                \<and> table_get k (purchases db') = Some stored))"
proof (intro conjI impI)
  assume "uf_receiptPhoto (formData page) = []"
  then show "purchases_handleSubmit toNumber siteId now dUpdated dCreated (page, db)
               = (page\<lparr> receiptError := True \<rparr>, db)"
    using assms by (simp add: purchases_handleSubmit_def Let_def editingReceipt_def)
next
  assume a: "uf_receiptPhoto (formData page) \<noteq> [] \<and> wf_table (purchases db)"
  let ?stored = "\<lparr> pur_siteId = siteId,
                     pur_item = uf_item (formData page),
                     pur_amount = toNumber (uf_amount (formData page)),
                     pur_currency = uf_currency (formData page),
                     pur_supplier = uf_supplier (formData page),
                     pur_category = uf_category (formData page),
                     pur_receiptPhoto = uf_receiptPhoto (formData page),
                     pur_purchaseDate = formatDate now,
                     pur_purchaseTime = formatTime now,
                     pur_notes = uf_notes (formData page),
                     pur_createdAt = toISOString dCreated,
                     pur_updatedAt = toISOString dUpdated \<rparr>"
  have db': "purchases (snd (purchases_handleSubmit toNumber siteId now dUpdated dCreated (page, db)))
              = snd (table_add ?stored (purchases db))"
    using assms a by (simp add: purchases_handleSubmit_def Let_def getTimestamp_def)
  have fresh: "nextId (purchases db) \<notin> set (keysOf (purchases db))"
    using a by (simp add: wf_table_fresh)
  have got: "table_get (nextId (purchases db)) (snd (table_add ?stored (purchases db))) = Some ?stored"
    using a by (simp add: table_get_add)
  have rws: "rows (snd (table_add ?stored (purchases db)))
               = rows (purchases db) @ [(nextId (purchases db), ?stored)]"
    by (simp add: table_add_def)
  show "(let db' = snd (purchases_handleSubmit toNumber siteId now dUpdated dCreated (page, db));
                 k = nextId (purchases db);
                 stored = ?stored
             in k \<notin> set (keysOf (purchases db))
                \<and> rows (purchases db') = rows (purchases db) @ [(k, stored)]
                \<and> table_get k (purchases db') = Some stored)"
    unfolding Let_def db' using fresh got rws by simp
qed

theorem purchases_handleSubmit_receipt_witness:
  "editingPurchase (newPurchasePage fuelForm) = None
   \<and> editingPurchase (newPurchasePage (fuelForm\<lparr> uf_receiptPhoto := [] \<rparr>)) = None
   \<and> purchases_handleSubmit exampleNumber 1 noon noon noon
        (newPurchasePage (fuelForm\<lparr> uf_receiptPhoto := [] \<rparr>), emptyDB)
       = ((newPurchasePage (fuelForm\<lparr> uf_receiptPhoto := [] \<rparr>))\<lparr> receiptError := True \<rparr>, emptyDB)
   \<and> uf_receiptPhoto (formData (newPurchasePage fuelForm)) \<noteq> []
   \<and> wf_table (purchases emptyDB)
   \<and> map_option pur_receiptPhoto
        (table_get 1 (purchases (snd (purchases_handleSubmit exampleNumber 1 noon noon noon
           (newPurchasePage fuelForm, emptyDB)))))
       = Some ''data:image/png;base64,AAAA''"
proof -
  have e1: "editingPurchase (newPurchasePage fuelForm) = None"
    by (simp add: newPurchasePage_def)
  have e2: "editingPurchase (newPurchasePage (fuelForm\<lparr> uf_receiptPhoto := [] \<rparr>)) = None"
    by (simp add: newPurchasePage_def)
  have w: "wf_table (purchases emptyDB)"
    by (simp add: wf_table_def keysOf_def emptyDB_def emptyTable_def)
  have n: "nextId (purchases emptyDB) = 1"
    by (simp add: emptyDB_def emptyTable_def)
  have p: "uf_receiptPhoto (formData (newPurchasePage fuelForm)) \<noteq> []"
    by (simp add: newPurchasePage_def fuelForm_def)
  have q: "uf_receiptPhoto (formData (newPurchasePage (fuelForm\<lparr> uf_receiptPhoto := [] \<rparr>))) = []"
    by (simp add: newPurchasePage_def fuelForm_def)
  show ?thesis
    using e1 e2 w p
      purchases_handleSubmit_receipt [OF e2, of exampleNumber 1 noon noon noon emptyDB]
      purchases_handleSubmit_receipt [OF e1, of exampleNumber 1 noon noon noon emptyDB]
    by (simp add: q n Let_def) (simp add: newPurchasePage_def fuelForm_def)
qed

subsection \<open>Updating a record after adding it\<close>

lemma production_add:
  "production_handleSubmit toNumber siteId form None dU dC db
     = db\<lparr> productions :=
            snd (table_add
              \<lparr> prod_siteId = siteId, prod_date = pf_date form,
                prod_quantityGrams = toNumber (pf_quantityGrams form), prod_team = pf_team form,
                prod_shift = pf_shift form, prod_notes = pf_notes form,
                prod_createdAt = toISOString dC, prod_updatedAt = toISOString dU \<rparr>
              (productions db)) \<rparr>"
  by (simp add: production_handleSubmit_def Let_def getTimestamp_def)

lemma production_edit:
  "k \<noteq> 0 \<Longrightarrow>
   production_handleSubmit toNumber siteId form (Some (k, e)) dU dC db
     = db\<lparr> productions :=
            table_update k
              (\<lambda>p. \<lparr> prod_siteId = siteId, prod_date = pf_date form,
                     prod_quantityGrams = toNumber (pf_quantityGrams form), prod_team = pf_team form,
                     prod_shift = pf_shift form, prod_notes = pf_notes form,
                     prod_createdAt = prod_createdAt p, prod_updatedAt = toISOString dU \<rparr>)
              (productions db) \<rparr>"
proof -
  have "applyProduction
          \<lparr> ch_prod_siteId = Some siteId, ch_prod_date = Some (pf_date form),
            ch_prod_quantityGrams = Some (toNumber (pf_quantityGrams form)),
            ch_prod_team = Some (pf_team form), ch_prod_shift = Some (pf_shift form),
            ch_prod_notes = Some (pf_notes form), ch_prod_createdAt = None,
            ch_prod_updatedAt = Some (toISOString dU) \<rparr>
        = (\<lambda>p. \<lparr> prod_siteId = siteId, prod_date = pf_date form,
                 prod_quantityGrams = toNumber (pf_quantityGrams form), prod_team = pf_team form,
                 prod_shift = pf_shift form, prod_notes = pf_notes form,
                 prod_createdAt = prod_createdAt p, prod_updatedAt = toISOString dU \<rparr>)"
    by (rule ext) (simp add: applyProduction_def patch_def)
  then show "k \<noteq> 0 \<Longrightarrow> ?thesis"
    by (simp add: production_handleSubmit_def Let_def getTimestamp_def)
qed

lemma inventory_add:
  "inventory_handleSubmit toNumber siteId form None dU dC db
     = db\<lparr> inventory :=
            snd (table_add
              \<lparr> inv_siteId = siteId, inv_name = if_name form, inv_category = if_category form,
                inv_quantity = toNumber (if_quantity form), inv_unit = if_unit form,
                inv_minQuantity = toNumber (if_minQuantity form),
                inv_condition = if_condition form, inv_location = if_location form,
                inv_notes = if_notes form,
                inv_createdAt = toISOString dC, inv_updatedAt = toISOString dU \<rparr>
              (inventory db)) \<rparr>"
  by (simp add: inventory_handleSubmit_def Let_def getTimestamp_def)

lemma inventory_edit:
  "k \<noteq> 0 \<Longrightarrow>
   inventory_handleSubmit toNumber siteId form (Some (k, e)) dU dC db
     = db\<lparr> inventory :=
            table_update k
              (\<lambda>x. \<lparr> inv_siteId = siteId, inv_name = if_name form, inv_category = if_category form,
                     inv_quantity = toNumber (if_quantity form), inv_unit = if_unit form,
                     inv_minQuantity = toNumber (if_minQuantity form),
                     inv_condition = if_condition form, inv_location = if_location form,
                     inv_notes = if_notes form,
                     inv_createdAt = inv_createdAt x, inv_updatedAt = toISOString dU \<rparr>)
              (inventory db) \<rparr>"
proof -
  have "applyInventory
          \<lparr> ch_inv_siteId = Some siteId, ch_inv_name = Some (if_name form),
            ch_inv_category = Some (if_category form),
            ch_inv_quantity = Some (toNumber (if_quantity form)),
            ch_inv_unit = Some (if_unit form),
            ch_inv_minQuantity = Some (toNumber (if_minQuantity form)),
            ch_inv_condition = Some (if_condition form),
            ch_inv_location = Some (if_location form), ch_inv_notes = Some (if_notes form),
            ch_inv_createdAt = None, ch_inv_updatedAt = Some (toISOString dU) \<rparr>
        = (\<lambda>x. \<lparr> inv_siteId = siteId, inv_name = if_name form, inv_category = if_category form,
                 inv_quantity = toNumber (if_quantity form), inv_unit = if_unit form,
                 inv_minQuantity = toNumber (if_minQuantity form),
                 inv_condition = if_condition form, inv_location = if_location form,
                 inv_notes = if_notes form,
                 inv_createdAt = inv_createdAt x, inv_updatedAt = toISOString dU \<rparr>)"
    by (rule ext) (simp add: applyInventory_def patch_def)
  then show "k \<noteq> 0 \<Longrightarrow> ?thesis"
    by (simp add: inventory_handleSubmit_def Let_def getTimestamp_def)
qed

lemma applyProduction_fields:
  "prod_siteId (applyProduction c p) = patch (ch_prod_siteId c) (prod_siteId p)"
  "prod_date (applyProduction c p) = patch (ch_prod_date c) (prod_date p)"
  "prod_quantityGrams (applyProduction c p) = patch (ch_prod_quantityGrams c) (prod_quantityGrams p)"
  "prod_team (applyProduction c p) = patch (ch_prod_team c) (prod_team p)"
  "prod_shift (applyProduction c p) = patch (ch_prod_shift c) (prod_shift p)"
  "prod_notes (applyProduction c p) = patch (ch_prod_notes c) (prod_notes p)"
  "prod_createdAt (applyProduction c p) = patch (ch_prod_createdAt c) (prod_createdAt p)"
  "prod_updatedAt (applyProduction c p) = patch (ch_prod_updatedAt c) (prod_updatedAt p)"
  by (simp_all add: applyProduction_def)

lemma patch_simps: "patch None old = old" "patch (Some v) old = v"
  by (simp_all add: patch_def)

text \<open>
  C6, as stated, fails: \<open>updatedAt\<close> need not increase. A production is added when the
  clock reads 2024-05-02T12:00:00.000Z and edited when the clock, set back in
  between, reads 2024-05-01T09:00:00.000Z. The edited fields read back with their
  new values, and \<open>updatedAt\<close> goes from the first reading to the second, which is
  not greater.
\<close>

theorem update_after_add_counterexample:
  "(let db1 = production_handleSubmit exampleNumber 1 goldForm None noon noon emptyDB;
        db2 = production_handleSubmit exampleNumber 1 goldFormEdited (Some (1, goldStored))
                dayBefore dayBefore db1
    in table_get 1 (productions db1) = Some goldStored
       \<and> table_get 1 (productions db2)
           = Some (goldStored\<lparr> prod_quantityGrams := 275, prod_team := ''B'', prod_shift := night,
                               prod_notes := ''recount'',
                               prod_updatedAt := ''2024-05-01T09:00:00.000Z'' \<rparr>)
       \<and> prod_updatedAt goldStored = ''2024-05-02T12:00:00.000Z''
       \<and> \<not> (''2024-05-02T12:00:00.000Z'' < ''2024-05-01T09:00:00.000Z''))"
  by (simp add: production_add production_edit table_get_update emptyDB_def emptyTable_def
      table_add_def table_get_def table_update_def goldForm_def goldFormEdited_def goldStored_def
      noon_def dayBefore_def exampleNumber_def Let_def)

text \<open>
  C6, amended. A record added by the production form (or the inventory form) and then
  edited through it reads back with every field of the form at its new value and
  \<open>createdAt\<close>, the one field the update does not name, unchanged. \<open>updatedAt\<close> is
  the clock reading taken by the update: it is greater than before if and only if
  that reading is greater than the one stored by the add. On the store itself, an
  update by a partial object replaces the row under the key by the patched object and
  leaves every other row alone; a field the partial object names takes its value, a
  field it does not name keeps its own.
\<close>

theorem update_after_add:
  assumes "wf_table (productions db)" and "wf_table (inventory db)"
  shows
    "(let k = nextId (productions db);
          db1 = production_handleSubmit toNumber siteId form None dU dC db;
          db2 = production_handleSubmit toNumber siteId' form' (Some (k, e)) dU' dC' db1
      in table_get k (productions db1)
           = Some \<lparr> prod_siteId = siteId, prod_date = pf_date form,
                    prod_quantityGrams = toNumber (pf_quantityGrams form),
                    prod_team = pf_team form, prod_shift = pf_shift form,
                    prod_notes = pf_notes form,
                    prod_createdAt = toISOString dC, prod_updatedAt = toISOString dU \<rparr>
         \<and> table_get k (productions db2)
           = Some \<lparr> prod_siteId = siteId', prod_date = pf_date form',
                    prod_quantityGrams = toNumber (pf_quantityGrams form'),
                    prod_team = pf_team form', prod_shift = pf_shift form',
                    prod_notes = pf_notes form',
                    prod_createdAt = toISOString dC, prod_updatedAt = toISOString dU' \<rparr>
         \<and> (case (table_get k (productions db1), table_get k (productions db2)) of
               (Some before, Some after) \<Rightarrow>
                 (prod_updatedAt before < prod_updatedAt after) = (toISOString dU < toISOString dU')
             | _ \<Rightarrow> False))
     \<and> (let k = nextId (inventory db);
          db1 = inventory_handleSubmit toNumber siteId iform None dU dC db;
          db2 = inventory_handleSubmit toNumber siteId' iform' (Some (k, ie)) dU' dC' db1
      in table_get k (inventory db1)
           = Some \<lparr> inv_siteId = siteId, inv_name = if_name iform,
                    inv_category = if_category iform,
                    inv_quantity = toNumber (if_quantity iform), inv_unit = if_unit iform,
                    inv_minQuantity = toNumber (if_minQuantity iform),
                    inv_condition = if_condition iform, inv_location = if_location iform,
                    inv_notes = if_notes iform,
                    inv_createdAt = toISOString dC, inv_updatedAt = toISOString dU \<rparr>
         \<and> table_get k (inventory db2)
           = Some \<lparr> inv_siteId = siteId', inv_name = if_name iform',
                    inv_category = if_category iform',
                    inv_quantity = toNumber (if_quantity iform'), inv_unit = if_unit iform',
                    inv_minQuantity = toNumber (if_minQuantity iform'),
                    inv_condition = if_condition iform', inv_location = if_location iform',
                    inv_notes = if_notes iform',
                    inv_createdAt = toISOString dC, inv_updatedAt = toISOString dU' \<rparr>
         \<and> (case (table_get k (inventory db1), table_get k (inventory db2)) of
               (Some before, Some after) \<Rightarrow>
                 (inv_updatedAt before < inv_updatedAt after) = (toISOString dU < toISOString dU')
             | _ \<Rightarrow> False))
     \<and> table_get k (table_update k (applyProduction c) t)
         = map_option (applyProduction c) (table_get k t)
     \<and> (j \<noteq> k \<longrightarrow> table_get j (table_update k (applyProduction c) t) = table_get j t)
     \<and> prod_team (applyProduction (c\<lparr> ch_prod_team := Some v, ch_prod_notes := None \<rparr>) p) = v
     \<and> prod_notes (applyProduction (c\<lparr> ch_prod_team := Some v, ch_prod_notes := None \<rparr>) p)
         = prod_notes p"
proof -
  have kp: "nextId (productions db) \<noteq> 0" and ki: "nextId (inventory db) \<noteq> 0"
    using assms by (simp_all add: wf_table_nextId)
  show ?thesis
    using assms kp ki
    by (simp add: Let_def production_add production_edit inventory_add inventory_edit
        table_get_update table_get_add applyProduction_fields patch_simps)
qed

theorem update_after_add_witness:
  "wf_table (productions emptyDB) \<and> wf_table (inventory emptyDB)
   \<and> (let db1 = production_handleSubmit exampleNumber 1 goldForm None noon noon emptyDB;
          db2 = production_handleSubmit exampleNumber 1 goldFormEdited (Some (1, goldStored))
                  evening evening db1
      in table_get 1 (productions db1) = Some goldStored
         \<and> table_get 1 (productions db2)
             = Some (goldStored\<lparr> prod_quantityGrams := 275, prod_team := ''B'',
                                 prod_shift := night, prod_notes := ''recount'',
                                 prod_updatedAt := ''2024-05-02T18:30:00.000Z'' \<rparr>))
   \<and> ''2024-05-02T12:00:00.000Z'' < ''2024-05-02T18:30:00.000Z''"
proof -
  have wp: "wf_table (productions emptyDB)" and wi: "wf_table (inventory emptyDB)"
    by (simp_all add: wf_table_def keysOf_def emptyDB_def emptyTable_def)
  have n: "nextId (productions emptyDB) = 1"
    by (simp add: emptyDB_def emptyTable_def)
  show ?thesis
    using wp wi
      update_after_add [OF wp wi, of exampleNumber 1 goldForm noon noon 1 goldFormEdited goldStored
        evening evening]
    by (simp add: n Let_def goldForm_def goldFormEdited_def goldStored_def noon_def evening_def
        exampleNumber_def)
qed

end
